theory Spec2Isabelle
  imports Main "HOL-Library.Sublist" "HOL-Library.Log_Nat"
begin

section \<open>JavaScript strings and values\<close>

text \<open>
  A string is a list of code units. The model covers the code units below 256 (the
  Latin-1 part of UTF-16), which is what \<^typ>\<open>char\<close> holds; the literals of the
  source are all ASCII.
\<close>

definition is_upper_char :: "char \<Rightarrow> bool" where
  "is_upper_char c =
     (let n = (of_char c :: nat)
      in (65 \<le> n \<and> n \<le> 90) \<or> (192 \<le> n \<and> n \<le> 222 \<and> n \<noteq> 215))"

text \<open>Lower-casing an upper-case letter of Latin-1 adds 32, that is, sets bit 5.\<close>

definition to_lower_char :: "char \<Rightarrow> char" where
  "to_lower_char c =
     (if is_upper_char c
      then (case c of Char b0 b1 b2 b3 b4 b5 b6 b7 \<Rightarrow> Char b0 b1 b2 b3 b4 True b6 b7)
      else c)"

definition toLowerCase :: "string \<Rightarrow> string" where
  "toLowerCase s = map to_lower_char s"

text \<open>\<open>s.includes(t)\<close>: \<open>t\<close> occurs in \<open>s\<close> at some position.\<close>

fun includes_str :: "string \<Rightarrow> string \<Rightarrow> bool" where
  "includes_str [] t = (t = [])"
| "includes_str (c # cs) t = (prefix t (c # cs) \<or> includes_str cs t)"

text \<open>\<open>s.startsWith(t)\<close>.\<close>

definition startsWith :: "string \<Rightarrow> string \<Rightarrow> bool" where
  "startsWith s t = prefix t s"

text \<open>
  \<open>x || d\<close> for an optional string \<open>x\<close>: \<open>undefined\<close> and the empty string are
  both falsy.
\<close>

definition or_else :: "string option \<Rightarrow> string \<Rightarrow> string" where
  "or_else x d = (case x of None \<Rightarrow> d | Some s \<Rightarrow> if s = [] then d else s)"

definition falsy :: "string option \<Rightarrow> bool" where
  "falsy x = (case x of None \<Rightarrow> True | Some s \<Rightarrow> s = [])"

text \<open>The decimal rendering of a non-negative integer inside a template literal.\<close>

definition digit_char :: "nat \<Rightarrow> char" where
  "digit_char d = ''0123456789'' ! d"

fun show_nat :: "nat \<Rightarrow> string" where
  "show_nat n =
     (if n < 10 then [digit_char n] else show_nat (n div 10) @ [digit_char (n mod 10)])"

declare show_nat.simps [simp del]

definition show_int :: "int \<Rightarrow> string" where
  "show_int i = (if i < 0 then ''-'' @ show_nat (nat (- i)) else show_nat (nat i))"

text \<open>
  The outcome of an \<open>async\<close> function: its promise resolves with a value or rejects
  with an error message.
\<close>

datatype 'a promise = Resolved 'a | Rejected string

text \<open>
  What the code reads from outside: the wall clock (\<open>Date.now()\<close>, \<open>new Date()\<close>, in
  milliseconds) and the random number generator. Reads are numbered; the \<open>k\<close>-th read
  gets the value the environment holds at \<open>k\<close>. \<open>random_tag k\<close> is
  \<open>Math.random().toString(36).substr(2, 9)\<close> and \<open>random_below k n\<close> is
  \<open>Math.floor(Math.random() * n)\<close> at read \<open>k\<close>.
\<close>

record env =
  clock :: "nat \<Rightarrow> int"
  random_tag :: "nat \<Rightarrow> string"
  random_below :: "nat \<Rightarrow> nat \<Rightarrow> nat"

section \<open>Data model (\<open>scraper.ts\<close>, \<open>testGenerator.ts\<close>, \<open>bugDetector.ts\<close>)\<close>

datatype ElementType = button | input | link | form | select | textarea

record ScrapedElement =
  el_id :: string
  el_type :: ElementType
  el_selector :: string
  el_text :: "string option"
  el_attributes :: "string \<rightharpoonup> string"
  el_xpath :: string
  el_position :: "rat \<times> rat"

datatype Priority = high | medium | low

datatype TestCategory = test_functional | test_ui | test_integration

text \<open>
  The value of the \<open>code\<close> field at run time: the text of a template, \<open>undefined\<close>, or
  a value that is no text, inherited from \<open>Object.prototype\<close> under the given key.
\<close>

datatype code_value = Code string | Inherited string | Undefined

record TestCase =
  tc_id :: string
  tc_name :: string
  tc_description :: string
  tc_framework :: string
  tc_code :: code_value
  tc_elements :: "string list"
  tc_priority :: Priority
  tc_category :: TestCategory

record GenerateTestsConfig =
  cfg_elements :: "ScrapedElement list"
  cfg_framework :: string
  cfg_baseUrl :: string
  cfg_includeValidation :: bool
  cfg_includeNegativeTests :: bool

datatype BugSeverity = critical | major | minor | trivial

datatype BugStatus = status_open | in_progress | resolved | closed

datatype BugCategory = functional | ui | performance | security | usability

record Bug =
  bug_id :: string
  bug_title :: string
  bug_description :: string
  bug_severity :: BugSeverity
  bug_status :: BugStatus
  bug_category :: BugCategory
  bug_url :: string
  bug_element :: "string option"
  bug_screenshot :: "string option"
  bug_steps :: "string list"
  bug_expectedResult :: string
  bug_actualResult :: string
  bug_testCaseId :: "string option"
  bug_jiraTicket :: "string option"
  bug_createdAt :: int
  bug_updatedAt :: int
  bug_assignee :: "string option"
  bug_reporter :: string

datatype ExecutionStatus = passed | failed | skipped

record TestExecution =
  ex_id :: string
  ex_testCaseId :: string
  ex_status :: ExecutionStatus
  ex_duration :: rat
  ex_error :: "string option"
  ex_screenshot :: "string option"
  ex_timestamp :: int

record Thresholds =
  loadTime :: rat
  visualDifference :: rat
  accessibilityScore :: rat

record BugDetectionConfig =
  enableVisualTesting :: bool
  enablePerformanceTesting :: bool
  enableAccessibilityTesting :: bool
  thresholds :: Thresholds

section \<open>Defect classification (\<open>bugDetector.ts\<close>)\<close>

definition determineBugSeverity :: "string \<Rightarrow> Priority \<Rightarrow> BugSeverity" where
  "determineBugSeverity error testPriority =
     (if includes_str (toLowerCase error) ''timeout''
         \<or> includes_str (toLowerCase error) ''not found''
      then critical
      else if includes_str (toLowerCase error) ''assertion''
         \<or> includes_str (toLowerCase error) ''expected''
      then (if testPriority = high then major else minor)
      else minor)"

text \<open>
  The \<open>switch\<close> names the three test categories; its \<open>default\<close> branch is for values
  outside the type, which the datatype does not have.
\<close>

fun mapTestCategoryToBugCategory :: "TestCategory \<Rightarrow> BugCategory" where
  "mapTestCategoryToBugCategory test_functional = functional"
| "mapTestCategoryToBugCategory test_ui = ui"
| "mapTestCategoryToBugCategory test_integration = functional"

text \<open>\<open>xs[0]\<close>: \<open>undefined\<close> on the empty array.\<close>

definition first_element :: "'a list \<Rightarrow> 'a option" where
  "first_element xs = (case xs of [] \<Rightarrow> None | x # _ \<Rightarrow> Some x)"

text \<open>
  The object literal is evaluated field by field: the clock and the generator are read
  for \<open>id\<close> (reads \<open>k\<close> and \<open>k + 1\<close>), then the clock for \<open>createdAt\<close> and
  \<open>updatedAt\<close>. The \<open>config\<close> parameter is not read.
\<close>

definition createBugFromFailedTest ::
  "env \<Rightarrow> nat \<Rightarrow> TestExecution \<Rightarrow> TestCase \<Rightarrow> BugDetectionConfig \<Rightarrow> Bug \<times> nat" where
  \<open>createBugFromFailedTest e k execution testCase config =
     (let severity = determineBugSeverity (or_else (ex_error execution) '''') (tc_priority testCase)
      in (\<lparr> bug_id = ''bug-'' @ show_int (clock e k) @ ''-'' @ random_tag e (k + 1),
            bug_title = ''Test Failure: '' @ tc_name testCase,
            bug_description = ''Automated test "'' @ tc_name testCase @ ''" failed during execution.'',
            bug_severity = severity,
            bug_status = status_open,
            bug_category = mapTestCategoryToBugCategory (tc_category testCase),
            bug_url = ''https://example.com'',
            bug_element = first_element (tc_elements testCase),
            bug_screenshot = ex_screenshot execution,
            bug_steps = [''Navigate to the test page'',
                         ''Execute the automated test case'',
                         ''Observe the failure''],
            bug_expectedResult = ''Test should pass without errors'',
            bug_actualResult = or_else (ex_error execution) ''Test failed with unknown error'',
            bug_testCaseId = Some (tc_id testCase),
            bug_jiraTicket = None,
            bug_createdAt = clock e (k + 2),
            bug_updatedAt = clock e (k + 3),
            bug_assignee = None,
            bug_reporter = ''QA Automation Tool'' \<rparr>, k + 4))\<close>

definition generateMockVisualBugs :: "env \<Rightarrow> nat \<Rightarrow> Bug list \<times> nat" where
  \<open>generateMockVisualBugs e k =
     ([\<lparr> bug_id = ''visual-bug-1'',
         bug_title = ''Button alignment issue on mobile'',
         bug_description = ''Login button is misaligned on mobile devices'',
         bug_severity = minor,
         bug_status = status_open,
         bug_category = ui,
         bug_url = ''https://example.com/login'',
         bug_element = Some ''#login-btn'',
         bug_screenshot = Some ''https://via.placeholder.com/400x800/ffff00/000000?text=Mobile+Layout+Issue'',
         bug_steps = [''Open the login page on mobile device'',
                      ''Observe the button alignment'',
                      ''Compare with desktop version''],
         bug_expectedResult = ''Button should be centered and properly aligned'',
         bug_actualResult = ''Button appears off-center and overlaps with other elements'',
         bug_testCaseId = None,
         bug_jiraTicket = None,
         bug_createdAt = clock e k,
         bug_updatedAt = clock e (k + 1),
         bug_assignee = None,
         bug_reporter = ''Visual Testing Tool'' \<rparr>], k + 2)\<close>

definition generateMockPerformanceBugs :: "env \<Rightarrow> nat \<Rightarrow> Bug list \<times> nat" where
  \<open>generateMockPerformanceBugs e k =
     ([\<lparr> bug_id = ''perf-bug-1'',
         bug_title = ''Slow page load time'',
         bug_description = ''Homepage takes more than 5 seconds to load'',
         bug_severity = major,
         bug_status = status_open,
         bug_category = performance,
         bug_url = ''https://example.com'',
         bug_element = None,
         bug_screenshot = None,
         bug_steps = [''Navigate to homepage'',
                      ''Measure load time'',
                      ''Compare with performance threshold''],
         bug_expectedResult = ''Page should load within 3 seconds'',
         bug_actualResult = ''Page loads in 6.2 seconds'',
         bug_testCaseId = None,
         bug_jiraTicket = None,
         bug_createdAt = clock e k,
         bug_updatedAt = clock e (k + 1),
         bug_assignee = None,
         bug_reporter = ''Performance Testing Tool'' \<rparr>], k + 2)\<close>

definition generateMockAccessibilityBugs :: "env \<Rightarrow> nat \<Rightarrow> Bug list \<times> nat" where
  \<open>generateMockAccessibilityBugs e k =
     ([\<lparr> bug_id = ''a11y-bug-1'',
         bug_title = ''Missing alt text for images'',
         bug_description = ''Product images are missing alternative text for screen readers'',
         bug_severity = major,
         bug_status = status_open,
         bug_category = usability,
         bug_url = ''https://example.com/products'',
         bug_element = Some ''img.product-image'',
         bug_screenshot = None,
         bug_steps = [''Navigate to products page'',
                      ''Run accessibility audit'',
                      ''Check image alt attributes''],
         bug_expectedResult = ''All images should have descriptive alt text'',
         bug_actualResult = ''15 images are missing alt attributes'',
         bug_testCaseId = None,
         bug_jiraTicket = None,
         bug_createdAt = clock e k,
         bug_updatedAt = clock e (k + 1),
         bug_assignee = None,
         bug_reporter = ''Accessibility Testing Tool'' \<rparr>], k + 2)\<close>

text \<open>
  The loop of \<open>detectBugs\<close> over the failed executions: an execution whose test case is
  not found is passed over (\<open>continue\<close>), the others push their bug.
\<close>

fun detect_loop ::
  "env \<Rightarrow> TestCase list \<Rightarrow> BugDetectionConfig \<Rightarrow> TestExecution list \<Rightarrow> Bug list \<Rightarrow> nat
     \<Rightarrow> Bug list \<times> nat" where
  "detect_loop e testCases config [] bugs k = (bugs, k)"
| "detect_loop e testCases config (execution # rest) bugs k =
     (case find (\<lambda>tc. tc_id tc = ex_testCaseId execution) testCases of
        None \<Rightarrow> detect_loop e testCases config rest bugs k
      | Some testCase \<Rightarrow>
          (case createBugFromFailedTest e k execution testCase config of
             (bug, k') \<Rightarrow> detect_loop e testCases config rest (bugs @ [bug]) k'))"

text \<open>
  \<open>detectBugs\<close> has no statement that throws, so its promise always resolves; the model
  returns the resolved list and the number of environment reads made so far.
\<close>

definition detectBugs ::
  "env \<Rightarrow> nat \<Rightarrow> TestExecution list \<Rightarrow> TestCase list \<Rightarrow> BugDetectionConfig \<Rightarrow> Bug list \<times> nat" where
  "detectBugs e k executions testCases config =
     (let failedExecutions = filter (\<lambda>exec. ex_status exec = failed) executions;
          (bugs1, k1) = detect_loop e testCases config failedExecutions [] k;
          (bugs2, k2) = (if enableVisualTesting config
                         then (case generateMockVisualBugs e k1 of (bs, k') \<Rightarrow> (bugs1 @ bs, k'))
                         else (bugs1, k1));
          (bugs3, k3) = (if enablePerformanceTesting config
                         then (case generateMockPerformanceBugs e k2 of (bs, k') \<Rightarrow> (bugs2 @ bs, k'))
                         else (bugs2, k2));
          (bugs4, k4) = (if enableAccessibilityTesting config
                         then (case generateMockAccessibilityBugs e k3 of (bs, k') \<Rightarrow> (bugs3 @ bs, k'))
                         else (bugs3, k3))
      in (bugs4, k4))"

section \<open>Test synthesis (\<open>testGenerator.ts\<close>)\<close>

text \<open>
  The property names of \<open>Object.prototype\<close>, which every object literal inherits: those
  of ECMAScript and of its annex on web browsers. A lookup under one of them finds a
  function (the prototype object itself under \<open>__proto__\<close>).
\<close>

definition object_prototype_keys :: "string list" where
  "object_prototype_keys =
     [''constructor'', ''__defineGetter__'', ''__defineSetter__'', ''hasOwnProperty'',
      ''__lookupGetter__'', ''__lookupSetter__'', ''isPrototypeOf'', ''propertyIsEnumerable'',
      ''toString'', ''valueOf'', ''__proto__'', ''toLocaleString'']"

text \<open>
  \<open>codeMap[framework]\<close>: the object literal has the three own keys \<open>playwright\<close>,
  \<open>selenium\<close> and \<open>cypress\<close>. The type annotation of \<open>framework\<close> is erased at run
  time, so the lookup is on a string: it finds the template under an own key, the
  inherited value under a key of \<open>Object.prototype\<close>, and \<open>undefined\<close> under any other.
\<close>

definition codeMap :: "string \<Rightarrow> string \<Rightarrow> string \<Rightarrow> string \<Rightarrow> code_value" where
  "codeMap playwrightCode seleniumCode cypressCode framework =
     (if framework = ''playwright'' then Code playwrightCode
      else if framework = ''selenium'' then Code seleniumCode
      else if framework = ''cypress'' then Code cypressCode
      else if framework \<in> set object_prototype_keys then Inherited framework
      else Undefined)"

text \<open>The three template literals of \<open>generateButtonTest\<close>.\<close>

definition buttonTest_playwrightCode :: "ScrapedElement \<Rightarrow> string \<Rightarrow> string \<Rightarrow> string" where
  \<open>buttonTest_playwrightCode element baseUrl selector =
     ''\<newline>'' @
     ''import { test, expect } from \'@playwright/test\';\<newline>'' @
     ''\<newline>'' @
     ''test(\'Button click test - '' @ or_else (el_text element) ''Button'' @ ''\', async ({ page }) => {\<newline>'' @
     ''  await page.goto('' @ [CHR 0x27] @ baseUrl @ ''\');\<newline>'' @
     ''  await page.click('' @ [CHR 0x27] @ selector @ ''\');\<newline>'' @
     ''  // Add assertions here\<newline>'' @
     ''  await expect(page).toHaveURL(/.*success.*/);\<newline>'' @
     ''});''\<close>

definition buttonTest_seleniumCode :: "string \<Rightarrow> string \<Rightarrow> string" where
  \<open>buttonTest_seleniumCode baseUrl selector =
     ''\<newline>'' @
     ''from selenium import webdriver\<newline>'' @
     ''from selenium.webdriver.common.by import By\<newline>'' @
     ''from selenium.webdriver.support.ui import WebDriverWait\<newline>'' @
     ''from selenium.webdriver.support import expected_conditions as EC\<newline>'' @
     ''\<newline>'' @
     ''def test_button_click():\<newline>'' @
     ''    driver = webdriver.Chrome()\<newline>'' @
     ''    try:\<newline>'' @
     ''        driver.get('' @ [CHR 0x27] @ baseUrl @ ''\')\<newline>'' @
     ''        button = WebDriverWait(driver, 10).until(\<newline>'' @
     ''            EC.element_to_be_clickable((By.CSS_SELECTOR, '' @ [CHR 0x27] @ selector @ ''\'))\<newline>'' @
     ''        )\<newline>'' @
     ''        button.click()\<newline>'' @
     ''        # Add assertions here\<newline>'' @
     ''        assert \'success\' in driver.current_url\<newline>'' @
     ''    finally:\<newline>'' @
     ''        driver.quit()''\<close>

definition buttonTest_cypressCode :: "ScrapedElement \<Rightarrow> string \<Rightarrow> string \<Rightarrow> string" where
  \<open>buttonTest_cypressCode element baseUrl selector =
     ''\<newline>'' @
     ''describe(\'Button Tests\', () => {\<newline>'' @
     ''  it(\'should click '' @ or_else (el_text element) ''button'' @ '' successfully\', () => {\<newline>'' @
     ''    cy.visit('' @ [CHR 0x27] @ baseUrl @ ''\');\<newline>'' @
     ''    cy.get('' @ [CHR 0x27] @ selector @ ''\').click();\<newline>'' @
     ''    // Add assertions here\<newline>'' @
     ''    cy.url().should(\'include\', \'success\');\<newline>'' @
     ''  });\<newline>'' @
     ''});''\<close>

text \<open>The three template literals of \<open>generateInputTest\<close>.\<close>

definition inputTest_playwrightCode :: "ScrapedElement \<Rightarrow> string \<Rightarrow> string \<Rightarrow> string" where
  \<open>inputTest_playwrightCode element baseUrl selector =
     ''\<newline>'' @
     ''import { test, expect } from \'@playwright/test\';\<newline>'' @
     ''\<newline>'' @
     ''test(\'Input field test - '' @ or_else (el_attributes element ''name'') ''Input'' @ ''\', async ({ page }) => {\<newline>'' @
     ''  await page.goto('' @ [CHR 0x27] @ baseUrl @ ''\');\<newline>'' @
     ''  await page.fill('' @ [CHR 0x27] @ selector @ ''\', \'test-value\');\<newline>'' @
     ''  const value = await page.inputValue('' @ [CHR 0x27] @ selector @ ''\');\<newline>'' @
     ''  expect(value).toBe(\'test-value\');\<newline>'' @
     ''});''\<close>

definition inputTest_seleniumCode :: "string \<Rightarrow> string \<Rightarrow> string" where
  \<open>inputTest_seleniumCode baseUrl selector =
     ''\<newline>'' @
     ''from selenium import webdriver\<newline>'' @
     ''from selenium.webdriver.common.by import By\<newline>'' @
     ''\<newline>'' @
     ''def test_input_field():\<newline>'' @
     ''    driver = webdriver.Chrome()\<newline>'' @
     ''    try:\<newline>'' @
     ''        driver.get('' @ [CHR 0x27] @ baseUrl @ ''\')\<newline>'' @
     ''        input_field = driver.find_element(By.CSS_SELECTOR, '' @ [CHR 0x27] @ selector @ ''\')\<newline>'' @
     ''        input_field.send_keys(\'test-value\')\<newline>'' @
     ''        assert input_field.get_attribute(\'value\') == \'test-value\'\<newline>'' @
     ''    finally:\<newline>'' @
     ''        driver.quit()''\<close>

definition inputTest_cypressCode :: "ScrapedElement \<Rightarrow> string \<Rightarrow> string \<Rightarrow> string" where
  \<open>inputTest_cypressCode element baseUrl selector =
     ''\<newline>'' @
     ''describe(\'Input Tests\', () => {\<newline>'' @
     ''  it(\'should fill '' @ or_else (el_attributes element ''name'') ''input'' @ '' field\', () => {\<newline>'' @
     ''    cy.visit('' @ [CHR 0x27] @ baseUrl @ ''\');\<newline>'' @
     ''    cy.get('' @ [CHR 0x27] @ selector @ ''\').type(\'test-value\');\<newline>'' @
     ''    cy.get('' @ [CHR 0x27] @ selector @ ''\').should(\'have.value\', \'test-value\');\<newline>'' @
     ''  });\<newline>'' @
     ''});''\<close>

text \<open>The three template literals of \<open>generateNegativeInputTest\<close>.\<close>

definition negativeInputTest_playwrightCode :: "ScrapedElement \<Rightarrow> string \<Rightarrow> string \<Rightarrow> string" where
  \<open>negativeInputTest_playwrightCode element baseUrl selector =
     ''\<newline>'' @
     ''import { test, expect } from \'@playwright/test\';\<newline>'' @
     ''\<newline>'' @
     ''test(\'Negative input test - '' @ or_else (el_attributes element ''name'') ''Input'' @ ''\', async ({ page }) => {\<newline>'' @
     ''  await page.goto('' @ [CHR 0x27] @ baseUrl @ ''\');\<newline>'' @
     ''  await page.fill('' @ [CHR 0x27] @ selector @ ''\', '' @ [CHR 0x27] @ ''\');\<newline>'' @
     ''  // Try to submit form or trigger validation\<newline>'' @
     ''  await page.click(\'button[type="submit"]\');\<newline>'' @
     ''  // Check for validation message\<newline>'' @
     ''  const errorMessage = page.locator(\'.error, .invalid-feedback\');\<newline>'' @
     ''  await expect(errorMessage).toBeVisible();\<newline>'' @
     ''});''\<close>

definition negativeInputTest_seleniumCode :: "string \<Rightarrow> string \<Rightarrow> string" where
  \<open>negativeInputTest_seleniumCode baseUrl selector =
     ''\<newline>'' @
     ''from selenium import webdriver\<newline>'' @
     ''from selenium.webdriver.common.by import By\<newline>'' @
     ''\<newline>'' @
     ''def test_negative_input():\<newline>'' @
     ''    driver = webdriver.Chrome()\<newline>'' @
     ''    try:\<newline>'' @
     ''        driver.get('' @ [CHR 0x27] @ baseUrl @ ''\')\<newline>'' @
     ''        input_field = driver.find_element(By.CSS_SELECTOR, '' @ [CHR 0x27] @ selector @ ''\')\<newline>'' @
     ''        input_field.clear()\<newline>'' @
     ''        submit_btn = driver.find_element(By.CSS_SELECTOR, \'button[type="submit"]\')\<newline>'' @
     ''        submit_btn.click()\<newline>'' @
     ''        error_msg = driver.find_element(By.CSS_SELECTOR, \'.error, .invalid-feedback\')\<newline>'' @
     ''        assert error_msg.is_displayed()\<newline>'' @
     ''    finally:\<newline>'' @
     ''        driver.quit()''\<close>

definition negativeInputTest_cypressCode :: "ScrapedElement \<Rightarrow> string \<Rightarrow> string \<Rightarrow> string" where
  \<open>negativeInputTest_cypressCode element baseUrl selector =
     ''\<newline>'' @
     ''describe(\'Negative Input Tests\', () => {\<newline>'' @
     ''  it(\'should show validation error for empty '' @ or_else (el_attributes element ''name'') ''input'' @ ''\', () => {\<newline>'' @
     ''    cy.visit('' @ [CHR 0x27] @ baseUrl @ ''\');\<newline>'' @
     ''    cy.get('' @ [CHR 0x27] @ selector @ ''\').clear();\<newline>'' @
     ''    cy.get(\'button[type="submit"]\').click();\<newline>'' @
     ''    cy.get(\'.error, .invalid-feedback\').should(\'be.visible\');\<newline>'' @
     ''  });\<newline>'' @
     ''});''\<close>

text \<open>The three template literals of \<open>generateLinkTest\<close>.\<close>

definition linkTest_playwrightCode :: "ScrapedElement \<Rightarrow> string \<Rightarrow> string \<Rightarrow> string \<Rightarrow> string" where
  \<open>linkTest_playwrightCode element baseUrl selector href =
     ''\<newline>'' @
     ''import { test, expect } from \'@playwright/test\';\<newline>'' @
     ''\<newline>'' @
     ''test(\'Link navigation test - '' @ or_else (el_text element) ''Link'' @ ''\', async ({ page }) => {\<newline>'' @
     ''  await page.goto('' @ [CHR 0x27] @ baseUrl @ ''\');\<newline>'' @
     ''  await page.click('' @ [CHR 0x27] @ selector @ ''\');\<newline>'' @
     ''  await expect(page).toHaveURL('' @ [CHR 0x27] @ (if startsWith href ''/'' then baseUrl @ href else href) @ ''\');\<newline>'' @
     ''});''\<close>

definition linkTest_seleniumCode :: "string \<Rightarrow> string \<Rightarrow> string \<Rightarrow> string" where
  \<open>linkTest_seleniumCode baseUrl selector href =
     ''\<newline>'' @
     ''from selenium import webdriver\<newline>'' @
     ''from selenium.webdriver.common.by import By\<newline>'' @
     ''\<newline>'' @
     ''def test_link_navigation():\<newline>'' @
     ''    driver = webdriver.Chrome()\<newline>'' @
     ''    try:\<newline>'' @
     ''        driver.get('' @ [CHR 0x27] @ baseUrl @ ''\')\<newline>'' @
     ''        link = driver.find_element(By.CSS_SELECTOR, '' @ [CHR 0x27] @ selector @ ''\')\<newline>'' @
     ''        link.click()\<newline>'' @
     ''        expected_url = '' @ [CHR 0x27] @ (if startsWith href ''/'' then baseUrl @ href else href) @ ''\'\<newline>'' @
     ''        assert driver.current_url == expected_url\<newline>'' @
     ''    finally:\<newline>'' @
     ''        driver.quit()''\<close>

definition linkTest_cypressCode :: "ScrapedElement \<Rightarrow> string \<Rightarrow> string \<Rightarrow> string \<Rightarrow> string" where
  \<open>linkTest_cypressCode element baseUrl selector href =
     ''\<newline>'' @
     ''describe(\'Link Tests\', () => {\<newline>'' @
     ''  it(\'should navigate to '' @ or_else (el_text element) ''link'' @ '' destination\', () => {\<newline>'' @
     ''    cy.visit('' @ [CHR 0x27] @ baseUrl @ ''\');\<newline>'' @
     ''    cy.get('' @ [CHR 0x27] @ selector @ ''\').click();\<newline>'' @
     ''    cy.url().should(\'eq\', '' @ [CHR 0x27] @ (if startsWith href ''/'' then baseUrl @ href else href) @ ''\');\<newline>'' @
     ''  });\<newline>'' @
     ''});''\<close>

text \<open>The three template literals of \<open>generateFormTest\<close>.\<close>

definition formTest_playwrightCode :: "string \<Rightarrow> string \<Rightarrow> string" where
  \<open>formTest_playwrightCode baseUrl selector =
     ''\<newline>'' @
     ''import { test, expect } from \'@playwright/test\';\<newline>'' @
     ''\<newline>'' @
     ''test(\'Form submission test\', async ({ page }) => {\<newline>'' @
     ''  await page.goto('' @ [CHR 0x27] @ baseUrl @ ''\');\<newline>'' @
     ''  \<newline>'' @
     ''  // Fill form fields\<newline>'' @
     ''  await page.fill(\'input[type="email"]\', \'test@example.com\');\<newline>'' @
     ''  await page.fill(\'input[type="password"]\', \'password123\');\<newline>'' @
     ''  \<newline>'' @
     ''  // Submit form\<newline>'' @
     ''  await page.click('' @ [CHR 0x27] @ selector @ '' button[type="submit"]\');\<newline>'' @
     ''  \<newline>'' @
     ''  // Add assertions for successful submission\<newline>'' @
     ''  await expect(page.locator(\'.success-message\')).toBeVisible();\<newline>'' @
     ''});''\<close>

definition formTest_seleniumCode :: "string \<Rightarrow> string \<Rightarrow> string" where
  \<open>formTest_seleniumCode baseUrl selector =
     ''\<newline>'' @
     ''from selenium import webdriver\<newline>'' @
     ''from selenium.webdriver.common.by import By\<newline>'' @
     ''\<newline>'' @
     ''def test_form_submission():\<newline>'' @
     ''    driver = webdriver.Chrome()\<newline>'' @
     ''    try:\<newline>'' @
     ''        driver.get('' @ [CHR 0x27] @ baseUrl @ ''\')\<newline>'' @
     ''        \<newline>'' @
     ''        # Fill form fields\<newline>'' @
     ''        email_field = driver.find_element(By.CSS_SELECTOR, \'input[type="email"]\')\<newline>'' @
     ''        email_field.send_keys(\'test@example.com\')\<newline>'' @
     ''        \<newline>'' @
     ''        password_field = driver.find_element(By.CSS_SELECTOR, \'input[type="password"]\')\<newline>'' @
     ''        password_field.send_keys(\'password123\')\<newline>'' @
     ''        \<newline>'' @
     ''        # Submit form\<newline>'' @
     ''        submit_btn = driver.find_element(By.CSS_SELECTOR, '' @ [CHR 0x27] @ selector @ '' button[type="submit"]\')\<newline>'' @
     ''        submit_btn.click()\<newline>'' @
     ''        \<newline>'' @
     ''        # Check for success message\<newline>'' @
     ''        success_msg = driver.find_element(By.CSS_SELECTOR, \'.success-message\')\<newline>'' @
     ''        assert success_msg.is_displayed()\<newline>'' @
     ''    finally:\<newline>'' @
     ''        driver.quit()''\<close>

definition formTest_cypressCode :: "string \<Rightarrow> string \<Rightarrow> string" where
  \<open>formTest_cypressCode baseUrl selector =
     ''\<newline>'' @
     ''describe(\'Form Tests\', () => {\<newline>'' @
     ''  it(\'should submit form successfully\', () => {\<newline>'' @
     ''    cy.visit('' @ [CHR 0x27] @ baseUrl @ ''\');\<newline>'' @
     ''    \<newline>'' @
     ''    // Fill form fields\<newline>'' @
     ''    cy.get(\'input[type="email"]\').type(\'test@example.com\');\<newline>'' @
     ''    cy.get(\'input[type="password"]\').type(\'password123\');\<newline>'' @
     ''    \<newline>'' @
     ''    // Submit form\<newline>'' @
     ''    cy.get('' @ [CHR 0x27] @ selector @ '' button[type="submit"]\').click();\<newline>'' @
     ''    \<newline>'' @
     ''    // Check for success\<newline>'' @
     ''    cy.get(\'.success-message\').should(\'be.visible\');\<newline>'' @
     ''  });\<newline>'' @
     ''});''\<close>

text \<open>The three template literals of \<open>generateWorkflowTest\<close>.\<close>

definition workflowTest_playwrightCode :: "string \<Rightarrow> string" where
  \<open>workflowTest_playwrightCode baseUrl =
     ''\<newline>'' @
     ''import { test, expect } from \'@playwright/test\';\<newline>'' @
     ''\<newline>'' @
     ''test(\'Complete user workflow test\', async ({ page }) => {\<newline>'' @
     ''  await page.goto('' @ [CHR 0x27] @ baseUrl @ ''\');\<newline>'' @
     ''  \<newline>'' @
     ''  // Step 1: Fill login form\<newline>'' @
     ''  await page.fill(\'input[name="email"]\', \'user@example.com\');\<newline>'' @
     ''  await page.fill(\'input[name="password"]\', \'password123\');\<newline>'' @
     ''  \<newline>'' @
     ''  // Step 2: Submit form\<newline>'' @
     ''  await page.click(\'#login-btn\');\<newline>'' @
     ''  \<newline>'' @
     ''  // Step 3: Verify successful login\<newline>'' @
     ''  await expect(page).toHaveURL(/.*dashboard.*/);\<newline>'' @
     ''  \<newline>'' @
     ''  // Step 4: Navigate to profile\<newline>'' @
     ''  await page.click(\'a[href="/profile"]\');\<newline>'' @
     ''  \<newline>'' @
     ''  // Step 5: Verify profile page\<newline>'' @
     ''  await expect(page.locator(\'h1\')).toContainText(\'Profile\');\<newline>'' @
     ''});''\<close>

definition workflowTest_seleniumCode :: "string \<Rightarrow> string" where
  \<open>workflowTest_seleniumCode baseUrl =
     ''\<newline>'' @
     ''from selenium import webdriver\<newline>'' @
     ''from selenium.webdriver.common.by import By\<newline>'' @
     ''from selenium.webdriver.support.ui import WebDriverWait\<newline>'' @
     ''from selenium.webdriver.support import expected_conditions as EC\<newline>'' @
     ''\<newline>'' @
     ''def test_complete_workflow():\<newline>'' @
     ''    driver = webdriver.Chrome()\<newline>'' @
     ''    try:\<newline>'' @
     ''        driver.get('' @ [CHR 0x27] @ baseUrl @ ''\')\<newline>'' @
     ''        \<newline>'' @
     ''        # Step 1: Fill login form\<newline>'' @
     ''        email_field = driver.find_element(By.NAME, \'email\')\<newline>'' @
     ''        email_field.send_keys(\'user@example.com\')\<newline>'' @
     ''        \<newline>'' @
     ''        password_field = driver.find_element(By.NAME, \'password\')\<newline>'' @
     ''        password_field.send_keys(\'password123\')\<newline>'' @
     ''        \<newline>'' @
     ''        # Step 2: Submit form\<newline>'' @
     ''        login_btn = driver.find_element(By.ID, \'login-btn\')\<newline>'' @
     ''        login_btn.click()\<newline>'' @
     ''        \<newline>'' @
     ''        # Step 3: Wait for dashboard\<newline>'' @
     ''        WebDriverWait(driver, 10).until(\<newline>'' @
     ''            EC.url_contains(\'dashboard\')\<newline>'' @
     ''        )\<newline>'' @
     ''        \<newline>'' @
     ''        # Step 4: Navigate to profile\<newline>'' @
     ''        profile_link = driver.find_element(By.CSS_SELECTOR, \'a[href="/profile"]\')\<newline>'' @
     ''        profile_link.click()\<newline>'' @
     ''        \<newline>'' @
     ''        # Step 5: Verify profile page\<newline>'' @
     ''        h1 = WebDriverWait(driver, 10).until(\<newline>'' @
     ''            EC.presence_of_element_located((By.TAG_NAME, \'h1\'))\<newline>'' @
     ''        )\<newline>'' @
     ''        assert \'Profile\' in h1.text\<newline>'' @
     ''    finally:\<newline>'' @
     ''        driver.quit()''\<close>

definition workflowTest_cypressCode :: "string \<Rightarrow> string" where
  \<open>workflowTest_cypressCode baseUrl =
     ''\<newline>'' @
     ''describe(\'Complete Workflow Tests\', () => {\<newline>'' @
     ''  it(\'should complete full user journey\', () => {\<newline>'' @
     ''    cy.visit('' @ [CHR 0x27] @ baseUrl @ ''\');\<newline>'' @
     ''    \<newline>'' @
     ''    // Step 1: Fill login form\<newline>'' @
     ''    cy.get(\'input[name="email"]\').type(\'user@example.com\');\<newline>'' @
     ''    cy.get(\'input[name="password"]\').type(\'password123\');\<newline>'' @
     ''    \<newline>'' @
     ''    // Step 2: Submit form\<newline>'' @
     ''    cy.get(\'#login-btn\').click();\<newline>'' @
     ''    \<newline>'' @
     ''    // Step 3: Verify dashboard\<newline>'' @
     ''    cy.url().should(\'include\', \'dashboard\');\<newline>'' @
     ''    \<newline>'' @
     ''    // Step 4: Navigate to profile\<newline>'' @
     ''    cy.get(\'a[href="/profile"]\').click();\<newline>'' @
     ''    \<newline>'' @
     ''    // Step 5: Verify profile page\<newline>'' @
     ''    cy.get(\'h1\').should(\'contain\', \'Profile\');\<newline>'' @
     ''  });\<newline>'' @
     ''});''\<close>

definition generateButtonTest :: "ScrapedElement \<Rightarrow> string \<Rightarrow> string \<Rightarrow> nat \<Rightarrow> TestCase" where
  "generateButtonTest element framework baseUrl index =
     (let selector = el_selector element
      in \<lparr> tc_id = ''btn-test-'' @ show_nat index,
           tc_name = ''Button Click Test - '' @ or_else (el_text element) ''Button'',
           tc_description = ''Test clicking the '' @ or_else (el_text element) ''button'' @ '' element'',
           tc_framework = framework,
           tc_code = codeMap (buttonTest_playwrightCode element baseUrl selector)
                       (buttonTest_seleniumCode baseUrl selector)
                       (buttonTest_cypressCode element baseUrl selector) framework,
           tc_elements = [el_id element],
           tc_priority = high,
           tc_category = test_functional \<rparr>)"

definition generateInputTest :: "ScrapedElement \<Rightarrow> string \<Rightarrow> string \<Rightarrow> nat \<Rightarrow> TestCase" where
  "generateInputTest element framework baseUrl index =
     (let selector = el_selector element;
          inputType = or_else (el_attributes element ''type'') ''text''
      in \<lparr> tc_id = ''input-test-'' @ show_nat index,
           tc_name = ''Input Field Test - '' @ or_else (el_attributes element ''name'') ''Input'',
           tc_description = ''Test filling the '' @ or_else (el_attributes element ''name'') ''input'' @ '' field'',
           tc_framework = framework,
           tc_code = codeMap (inputTest_playwrightCode element baseUrl selector)
                       (inputTest_seleniumCode baseUrl selector)
                       (inputTest_cypressCode element baseUrl selector) framework,
           tc_elements = [el_id element],
           tc_priority = medium,
           tc_category = test_functional \<rparr>)"

definition generateNegativeInputTest :: "ScrapedElement \<Rightarrow> string \<Rightarrow> string \<Rightarrow> nat \<Rightarrow> TestCase" where
  "generateNegativeInputTest element framework baseUrl index =
     (let selector = el_selector element
      in \<lparr> tc_id = ''negative-input-test-'' @ show_nat index,
           tc_name = ''Negative Input Test - '' @ or_else (el_attributes element ''name'') ''Input'',
           tc_description = ''Test validation for empty '' @ or_else (el_attributes element ''name'') ''input'' @ '' field'',
           tc_framework = framework,
           tc_code = codeMap (negativeInputTest_playwrightCode element baseUrl selector)
                       (negativeInputTest_seleniumCode baseUrl selector)
                       (negativeInputTest_cypressCode element baseUrl selector) framework,
           tc_elements = [el_id element],
           tc_priority = medium,
           tc_category = test_functional \<rparr>)"

definition generateLinkTest :: "ScrapedElement \<Rightarrow> string \<Rightarrow> string \<Rightarrow> nat \<Rightarrow> TestCase" where
  "generateLinkTest element framework baseUrl index =
     (let selector = el_selector element;
          href = or_else (el_attributes element ''href'') ''#''
      in \<lparr> tc_id = ''link-test-'' @ show_nat index,
           tc_name = ''Link Navigation Test - '' @ or_else (el_text element) ''Link'',
           tc_description = ''Test navigation for '' @ or_else (el_text element) ''link'' @ '' element'',
           tc_framework = framework,
           tc_code = codeMap (linkTest_playwrightCode element baseUrl selector href)
                       (linkTest_seleniumCode baseUrl selector href)
                       (linkTest_cypressCode element baseUrl selector href) framework,
           tc_elements = [el_id element],
           tc_priority = low,
           tc_category = test_functional \<rparr>)"

definition generateFormTest :: "ScrapedElement \<Rightarrow> string \<Rightarrow> string \<Rightarrow> nat \<Rightarrow> TestCase" where
  "generateFormTest element framework baseUrl index =
     (let selector = el_selector element
      in \<lparr> tc_id = ''form-test-'' @ show_nat index,
           tc_name = ''Form Submission Test'',
           tc_description = ''Test complete form submission workflow'',
           tc_framework = framework,
           tc_code = codeMap (formTest_playwrightCode baseUrl selector)
                       (formTest_seleniumCode baseUrl selector)
                       (formTest_cypressCode baseUrl selector) framework,
           tc_elements = [el_id element],
           tc_priority = high,
           tc_category = test_integration \<rparr>)"

definition generateWorkflowTest :: "ScrapedElement list \<Rightarrow> string \<Rightarrow> string \<Rightarrow> TestCase" where
  "generateWorkflowTest elements framework baseUrl =
     \<lparr> tc_id = ''workflow-test-1'',
       tc_name = ''Complete User Workflow Test'',
       tc_description = ''End-to-end test covering login, navigation, and profile access'',
       tc_framework = framework,
       tc_code = codeMap (workflowTest_playwrightCode baseUrl)
                   (workflowTest_seleniumCode baseUrl)
                   (workflowTest_cypressCode baseUrl) framework,
       tc_elements = map el_id elements,
       tc_priority = high,
       tc_category = test_integration \<rparr>"

text \<open>
  The callback of \<open>config.elements.forEach\<close>: the test cases one element pushes. The
  \<open>switch\<close> has no case for \<open>select\<close> and \<open>textarea\<close> and no default.
\<close>

definition forEach_body :: "GenerateTestsConfig \<Rightarrow> ScrapedElement \<Rightarrow> nat \<Rightarrow> TestCase list" where
  "forEach_body config element index =
     (case el_type element of
        button \<Rightarrow> [generateButtonTest element (cfg_framework config) (cfg_baseUrl config) index]
      | input \<Rightarrow>
          generateInputTest element (cfg_framework config) (cfg_baseUrl config) index #
          (if cfg_includeNegativeTests config
           then [generateNegativeInputTest element (cfg_framework config) (cfg_baseUrl config) index]
           else [])
      | link \<Rightarrow> [generateLinkTest element (cfg_framework config) (cfg_baseUrl config) index]
      | form \<Rightarrow> [generateFormTest element (cfg_framework config) (cfg_baseUrl config) index]
      | select \<Rightarrow> []
      | textarea \<Rightarrow> [])"

fun forEach_elements ::
  "GenerateTestsConfig \<Rightarrow> ScrapedElement list \<Rightarrow> nat \<Rightarrow> TestCase list \<Rightarrow> TestCase list" where
  "forEach_elements config [] index testCases = testCases"
| "forEach_elements config (element # rest) index testCases =
     forEach_elements config rest (index + 1) (testCases @ forEach_body config element index)"

text \<open>
  \<open>generateTestCases\<close> has no statement that throws and no check of the framework: its
  promise resolves with the array built.
\<close>

definition generateTestCases :: "GenerateTestsConfig \<Rightarrow> TestCase list promise" where
  "generateTestCases config =
     (let testCases = forEach_elements config (cfg_elements config) 0 [];
          formElements = filter (\<lambda>el. el_type el = form) (cfg_elements config)
      in Resolved
           (if length formElements > 0
            then testCases @ [generateWorkflowTest (cfg_elements config) (cfg_framework config)
                                (cfg_baseUrl config)]
            else testCases))"

section \<open>Ticket mapping (the \<open>jiraIntegration\<close> module, second part of \<open>bugDetector.ts\<close>)\<close>

record JiraConfig =
  jira_baseUrl :: string
  jira_email :: string
  jira_apiToken :: string
  jira_projectKey :: string
  jira_issueType :: string
  jira_autoCreateTickets :: bool

text \<open>\<open>Partial<JiraConfig>\<close>: every field may be absent.\<close>

record PartialJiraConfig =
  p_baseUrl :: "string option"
  p_email :: "string option"
  p_apiToken :: "string option"
  p_projectKey :: "string option"
  p_issueType :: "string option"
  p_autoCreateTickets :: "bool option"

text \<open>A full configuration passed where a partial one is expected.\<close>

definition as_partial :: "JiraConfig \<Rightarrow> PartialJiraConfig" where
  "as_partial c =
     \<lparr> p_baseUrl = Some (jira_baseUrl c),
       p_email = Some (jira_email c),
       p_apiToken = Some (jira_apiToken c),
       p_projectKey = Some (jira_projectKey c),
       p_issueType = Some (jira_issueType c),
       p_autoCreateTickets = Some (jira_autoCreateTickets c) \<rparr>"

record JiraTicket =
  ticket_id :: string
  ticket_key :: string
  ticket_summary :: string
  ticket_description :: string
  ticket_priority :: string
  ticket_status :: string
  ticket_assignee :: "string option"
  ticket_reporter :: string
  ticket_created :: int
  ticket_updated :: int
  ticket_url :: string

record CreateTicketRequest =
  req_summary :: string
  req_description :: string
  req_priority :: string
  req_issueType :: string
  req_projectKey :: string
  req_assignee :: "string option"
  req_labels :: "string list option"

text \<open>
  The \<open>switch\<close> names all four severities; its \<open>default\<close> branch is for values outside
  the type \<open>BugSeverity\<close>, which the datatype does not have.
\<close>

fun mapBugSeverityToJiraPriority :: "BugSeverity \<Rightarrow> string" where
  "mapBugSeverityToJiraPriority critical = ''Blocker''"
| "mapBugSeverityToJiraPriority major = ''High''"
| "mapBugSeverityToJiraPriority minor = ''Medium''"
| "mapBugSeverityToJiraPriority trivial = ''Low''"

text \<open>A category inside a template literal or an array of strings: its own name.\<close>

fun category_text :: "BugCategory \<Rightarrow> string" where
  "category_text functional = ''functional''"
| "category_text ui = ''ui''"
| "category_text performance = ''performance''"
| "category_text security = ''security''"
| "category_text usability = ''usability''"

text \<open>\<open>xs.join(sep)\<close>.\<close>

fun join :: "string \<Rightarrow> string list \<Rightarrow> string" where
  "join sep [] = []"
| "join sep [x] = x"
| "join sep (x # y # ys) = x @ sep @ join sep (y # ys)"

text \<open>
  White space and line terminators among the code units below 256: what \<open>trim\<close> strips
  and what \<open>\s\<close> matches.
\<close>

definition is_space :: "char \<Rightarrow> bool" where
  "is_space c = ((of_char c :: nat) \<in> {9, 10, 11, 12, 13, 32, 160})"

definition trim :: "string \<Rightarrow> string" where
  "trim s = rev (dropWhile is_space (rev (dropWhile is_space s)))"

text \<open>
  \<open>toISOString\<close> of the platform is a parameter: on a date that is no valid time value
  it throws a \<open>RangeError\<close> (\<open>Inl\<close> its message), on any other it returns the text
  (\<open>Inr\<close>). On a defect of the declared type this call is the only expression of the
  template literal that can throw.
\<close>

definition formatBugDescriptionForJira :: "(int \<Rightarrow> string + string) \<Rightarrow> Bug \<Rightarrow> string + string" where
  \<open>formatBugDescriptionForJira toISOString bug =
     (case toISOString (bug_createdAt bug) of
        Inl message \<Rightarrow> Inl message
      | Inr created \<Rightarrow> Inr (trim (
          ''\<newline>'' @
          ''*Bug Description:*\<newline>'' @
          bug_description bug @ ''\<newline>'' @
          ''\<newline>'' @
          ''*Steps to Reproduce:*\<newline>'' @
          join ''\<newline>''
            (map (\<lambda>(index, step). show_nat (index + 1) @ ''. '' @ step) (enumerate 0 (bug_steps bug))) @
          ''\<newline>'' @
          ''\<newline>'' @
          ''*Expected Result:*\<newline>'' @
          bug_expectedResult bug @ ''\<newline>'' @
          ''\<newline>'' @
          ''*Actual Result:*\<newline>'' @
          bug_actualResult bug @ ''\<newline>'' @
          ''\<newline>'' @
          ''*Additional Information:*\<newline>'' @
          ''- URL: '' @ bug_url bug @ ''\<newline>'' @
          ''- Element: '' @ or_else (bug_element bug) ''N/A'' @ ''\<newline>'' @
          ''- Category: '' @ category_text (bug_category bug) @ ''\<newline>'' @
          ''- Test Case ID: '' @ or_else (bug_testCaseId bug) ''N/A'' @ ''\<newline>'' @
          ''- Reporter: '' @ bug_reporter bug @ ''\<newline>'' @
          ''- Created: '' @ created @ ''\<newline>'' @
          ''\<newline>'' @
          (if falsy (bug_screenshot bug) then []
           else ''*Screenshot:* '' @ or_else (bug_screenshot bug) []) @
          ''\<newline>'' @
          ''  '')))\<close>

text \<open>
  \<open>createJiraTicket\<close>: the body of the \<open>try\<close> builds the request and the mock ticket.
  Building the description is the one step that can throw, before anything is read
  from the environment; the \<open>catch\<close> then rejects with the message of the error after
  a fixed prefix. Otherwise the generator is read for \<open>id\<close> and \<open>key\<close>, the clock for
  \<open>created\<close> and \<open>updated\<close>, and the generator again for \<open>url\<close>. The function does
  not call \<open>validateJiraConfig\<close>.
\<close>

definition createJiraTicket ::
  "(int \<Rightarrow> string + string) \<Rightarrow> env \<Rightarrow> nat \<Rightarrow> Bug \<Rightarrow> JiraConfig \<Rightarrow> JiraTicket promise \<times> nat" where
  "createJiraTicket toISOString e k bug config =
     (let priority = mapBugSeverityToJiraPriority (bug_severity bug)
      in case formatBugDescriptionForJira toISOString bug of
           Inl message \<Rightarrow> (Rejected (''Failed to create Jira ticket: '' @ message), k)
         | Inr description \<Rightarrow>
             (let ticketRequest =
                    \<lparr> req_summary = bug_title bug,
                      req_description = description,
                      req_priority = priority,
                      req_issueType = jira_issueType config,
                      req_projectKey = jira_projectKey config,
                      req_assignee = None,
                      req_labels = Some [''automation'', ''qa-tool'', category_text (bug_category bug)] \<rparr>;
                  mockTicket =
                    \<lparr> ticket_id = show_nat (random_below e k 10000),
                      ticket_key = jira_projectKey config @ ''-'' @ show_nat (random_below e (k + 1) 1000),
                      ticket_summary = req_summary ticketRequest,
                      ticket_description = req_description ticketRequest,
                      ticket_priority = req_priority ticketRequest,
                      ticket_status = ''Open'',
                      ticket_assignee = None,
                      ticket_reporter = jira_email config,
                      ticket_created = clock e (k + 2),
                      ticket_updated = clock e (k + 3),
                      ticket_url = jira_baseUrl config @ ''/browse/'' @ jira_projectKey config @ ''-'' @
                                     show_nat (random_below e (k + 4) 1000) \<rparr>
              in (Resolved mockTicket, k + 5)))"

text \<open>
  \<open>isValidUrl\<close>: whether \<open>new URL(url)\<close> returns rather than throws. The URL parser of
  the platform is a parameter.
\<close>

definition isValidUrl :: "(string \<Rightarrow> bool) \<Rightarrow> string \<Rightarrow> bool" where
  "isValidUrl url_parses url = url_parses url"

text \<open>
  \<open>isValidEmail\<close>: the regular expression \<open>/^[^\s@]+@[^\s@]+\.[^\s@]+$/\<close>. The first
  class runs up to the first \<open>@\<close> or space; an \<open>@\<close> must follow; the rest has no space
  and no \<open>@\<close>, and holds a dot that is neither its first nor its last character.
\<close>

definition email_char :: "char \<Rightarrow> bool" where
  "email_char c = (\<not> is_space c \<and> c \<noteq> CHR ''@'')"

definition isValidEmail :: "string \<Rightarrow> bool" where
  "isValidEmail email =
     (let local_part = takeWhile email_char email;
          rest = dropWhile email_char email
      in local_part \<noteq> [] \<and>
         (case rest of
            [] \<Rightarrow> False
          | c # domain \<Rightarrow>
              c = CHR ''@'' \<and> list_all email_char domain \<and>
              list_ex (\<lambda>i. domain ! i = CHR ''.'') [1 ..< length domain - 1]))"

definition check_baseUrl :: "(string \<Rightarrow> bool) \<Rightarrow> PartialJiraConfig \<Rightarrow> string list" where
  "check_baseUrl url_parses config =
     (if falsy (p_baseUrl config) then [''Base URL is required'']
      else if \<not> isValidUrl url_parses (or_else (p_baseUrl config) [])
      then [''Base URL must be a valid URL'']
      else [])"

definition check_email :: "PartialJiraConfig \<Rightarrow> string list" where
  "check_email config =
     (if falsy (p_email config) then [''Email is required'']
      else if \<not> isValidEmail (or_else (p_email config) [])
      then [''Email must be a valid email address'']
      else [])"

text \<open>
  \<open>validateJiraConfig\<close>: five \<open>if\<close> statements in sequence, each pushing at most one
  message onto \<open>errors\<close>.
\<close>

definition validateJiraConfig :: "(string \<Rightarrow> bool) \<Rightarrow> PartialJiraConfig \<Rightarrow> string list" where
  "validateJiraConfig url_parses config =
     check_baseUrl url_parses config @
     check_email config @
     (if falsy (p_apiToken config) then [''API Token is required''] else []) @
     (if falsy (p_projectKey config) then [''Project Key is required''] else []) @
     (if falsy (p_issueType config) then [''Issue Type is required''] else [])"

section \<open>Reporting (the \<open>ReportingDashboard\<close> component)\<close>

text \<open>
  A JavaScript number is an IEEE 754 binary64 value. The finite ones are the rationals
  \<open>m * 2 ^ e\<close> with \<open>\<bar>m\<bar> < 2 ^ 53\<close>, and an arithmetic operation returns the exact
  result rounded to the nearest of them, ties to the even \<open>m\<close>. \<open>fl64\<close> is that
  rounding on the normal range (no overflow, no subnormal results), which the numbers
  below stay in: the operands are array lengths and \<open>100\<close>.
\<close>

definition round_half_even :: "rat \<Rightarrow> int" where
  "round_half_even x =
     (let f = \<lfloor>x\<rfloor>; d = x - of_int f
      in if d < 1 / 2 then f else if 1 / 2 < d then f + 1 else if even f then f else f + 1)"

text \<open>For \<open>x > 0\<close>, \<open>binade x\<close> is the \<open>e\<close> with \<open>2 ^ e \<le> x < 2 ^ (e + 1)\<close>.\<close>

definition binade :: "rat \<Rightarrow> int" where
  "binade x =
     (case quotient_of x of
        (p, q) \<Rightarrow> (let d = bitlen p - bitlen q in if 2 powi d \<le> x then d else d - 1))"

definition fl64 :: "rat \<Rightarrow> rat" where
  "fl64 x =
     (if x = 0 then 0
      else (let u = 2 powi (binade \<bar>x\<bar> - 52)
            in sgn x * of_int (round_half_even (\<bar>x\<bar> / u)) * u))"

definition num_div :: "rat \<Rightarrow> rat \<Rightarrow> rat" where
  "num_div a b = fl64 (a / b)"

definition num_mul :: "rat \<Rightarrow> rat \<Rightarrow> rat" where
  "num_mul a b = fl64 (a * b)"

definition num_sub :: "rat \<Rightarrow> rat \<Rightarrow> rat" where
  "num_sub a b = fl64 (a - b)"

text \<open>
  The statistics of the dashboard that the pass rate is computed from:
  \<open>totalTests = testCases.length\<close>, \<open>totalBugs = bugs.length\<close> and
  \<open>passRate = totalTests > 0 ? Math.max(0, 100 - (totalBugs / totalTests) * 100) : 0\<close>.
\<close>

definition passRate :: "Bug list \<Rightarrow> TestCase list \<Rightarrow> rat" where
  "passRate bugs testCases =
     (let totalTests = length testCases;
          totalBugs = length bugs
      in if totalTests > 0
         then max 0 (num_sub 100 (num_mul (num_div (of_nat totalBugs) (of_nat totalTests)) 100))
         else 0)"

section \<open>The vocabulary of the specification\<close>

subsection \<open>Classification\<close>

text \<open>
  "The text contains \<open>w\<close>, case-insensitively": some stretch of the text equals \<open>w\<close>
  once both are lower-cased.
\<close>

definition contains_ci :: "string \<Rightarrow> string \<Rightarrow> bool" where
  "contains_ci txt w = (\<exists>u. sublist u txt \<and> map to_lower_char u = map to_lower_char w)"

text \<open>The severity rule in the words of the specification; an absent error is the empty text.\<close>

definition spec_severity :: "string option \<Rightarrow> Priority \<Rightarrow> BugSeverity" where
  "spec_severity err p =
     (let txt = (case err of None \<Rightarrow> [] | Some s \<Rightarrow> s)
      in if contains_ci txt ''timeout'' \<or> contains_ci txt ''not found'' then critical
         else if contains_ci txt ''assertion'' \<or> contains_ci txt ''expected''
         then (if p = high then major else minor)
         else minor)"

text \<open>
  The failed results whose specification is known, each with the specification it
  resolves to, in the order of the results.
\<close>

definition failed_resolved :: "TestExecution list \<Rightarrow> TestCase list \<Rightarrow> (TestExecution \<times> TestCase) list" where
  "failed_resolved executions testCases =
     concat (map (\<lambda>x. case find (\<lambda>tc. tc_id tc = ex_testCaseId x) testCases of
                          None \<Rightarrow> [] | Some tc \<Rightarrow> [(x, tc)])
                 (filter (\<lambda>x. ex_status x = failed) executions))"

text \<open>The severities of the probe findings that the configuration switches on.\<close>

definition probe_severities :: "BugDetectionConfig \<Rightarrow> BugSeverity list" where
  "probe_severities config =
     (if enableVisualTesting config then [minor] else []) @
     (if enablePerformanceTesting config then [major] else []) @
     (if enableAccessibilityTesting config then [major] else [])"

text \<open>A defect with its generated identifier blanked.\<close>

definition erase_id :: "Bug \<Rightarrow> Bug" where
  "erase_id b = b\<lparr>bug_id := []\<rparr>"

text \<open>A defect with its generated identifier and its two clock readings blanked.\<close>

definition erase_generated :: "Bug \<Rightarrow> Bug" where
  "erase_generated b = b\<lparr>bug_id := [], bug_createdAt := 0, bug_updatedAt := 0\<rparr>"

subsection \<open>Synthesis\<close>

text \<open>The three framework values of the type \<open>TestFramework\<close>.\<close>

definition supported_framework :: "string \<Rightarrow> bool" where
  "supported_framework fw = (fw = ''playwright'' \<or> fw = ''selenium'' \<or> fw = ''cypress'')"

definition has_form :: "ScrapedElement list \<Rightarrow> bool" where
  "has_form elements = list_ex (\<lambda>el. el_type el = form) elements"

text \<open>
  The per-element specifications: what the \<open>forEach\<close> callback pushes for each element
  with its index, in the order of the elements.
\<close>

definition per_element_specs :: "GenerateTestsConfig \<Rightarrow> TestCase list" where
  "per_element_specs config =
     concat (map (\<lambda>(index, element). forEach_body config element index)
                 (enumerate 0 (cfg_elements config)))"

text \<open>The workflow specification is the one with the fixed identifier \<open>workflow-test-1\<close>.\<close>

definition is_workflow_spec :: "TestCase \<Rightarrow> bool" where
  "is_workflow_spec t = (tc_id t = ''workflow-test-1'')"

text \<open>The navigation specification of the element at index \<open>i\<close>, by its identifier.\<close>

definition is_link_spec_of :: "nat \<Rightarrow> TestCase \<Rightarrow> bool" where
  "is_link_spec_of i t = (tc_id t = ''link-test-'' @ show_nat i)"

text \<open>
  The href of a link element, \<open>element.attributes.href || '#'\<close>, and the URL its test
  expects, \<open>href.startsWith('/') ? baseUrl + href : href\<close>.
\<close>

definition element_href :: "ScrapedElement \<Rightarrow> string" where
  "element_href element = or_else (el_attributes element ''href'') ''#''"

definition link_expected_url :: "string \<Rightarrow> ScrapedElement \<Rightarrow> string" where
  "link_expected_url baseUrl element =
     (let href = or_else (el_attributes element ''href'') ''#''
      in if startsWith href ''/'' then baseUrl @ href else href)"

text \<open>
  What it is for a test body to assert that the URL after the click equals \<open>u\<close>, in
  each framework's own idiom.
\<close>

definition url_assertion :: "string \<Rightarrow> string \<Rightarrow> string" where
  \<open>url_assertion framework u =
     (if framework = ''playwright''
      then ''await expect(page).toHaveURL('' @ [CHR 0x27] @ u @ ''\');''
      else if framework = ''selenium''
      then ''expected_url = '' @ [CHR 0x27] @ u @ ''\'\<newline>'' @
           ''        assert driver.current_url == expected_url''
      else if framework = ''cypress''
      then ''cy.url().should(\'eq\', '' @ [CHR 0x27] @ u @ ''\');''
      else [])\<close>

text \<open>
  An absolute href starts with a scheme: a letter, then letters, digits, \<open>+\<close>, \<open>-\<close> or
  \<open>.\<close>, then a colon. Every other href is relative.
\<close>

definition scheme_char :: "char \<Rightarrow> bool" where
  "scheme_char c =
     (let n = (of_char c :: nat)
      in (65 \<le> n \<and> n \<le> 90) \<or> (97 \<le> n \<and> n \<le> 122) \<or> (48 \<le> n \<and> n \<le> 57)
         \<or> c = CHR ''+'' \<or> c = CHR ''-'' \<or> c = CHR ''.'')"

definition spec_href_absolute :: "string \<Rightarrow> bool" where
  "spec_href_absolute h =
     (case h of
        [] \<Rightarrow> False
      | c # cs \<Rightarrow>
          (let n = (of_char c :: nat) in (65 \<le> n \<and> n \<le> 90) \<or> (97 \<le> n \<and> n \<le> 122)) \<and>
          (case dropWhile scheme_char cs of [] \<Rightarrow> False | d # _ \<Rightarrow> d = CHR '':''))"

subsection \<open>Tracker configuration\<close>

text \<open>A field is present when it is given and not empty.\<close>

definition field_present :: "string option \<Rightarrow> bool" where
  "field_present x = (case x of None \<Rightarrow> False | Some s \<Rightarrow> s \<noteq> [])"

text \<open>The five conditions on a tracker configuration.\<close>

definition baseUrl_ok :: "(string \<Rightarrow> bool) \<Rightarrow> PartialJiraConfig \<Rightarrow> bool" where
  "baseUrl_ok url_parses config =
     (case p_baseUrl config of None \<Rightarrow> False | Some u \<Rightarrow> u \<noteq> [] \<and> url_parses u)"

definition email_ok :: "PartialJiraConfig \<Rightarrow> bool" where
  "email_ok config =
     (case p_email config of None \<Rightarrow> False | Some m \<Rightarrow> m \<noteq> [] \<and> isValidEmail m)"

text \<open>How many of the five conditions a configuration violates.\<close>

definition violations :: "(string \<Rightarrow> bool) \<Rightarrow> PartialJiraConfig \<Rightarrow> nat" where
  "violations url_parses config =
     (if baseUrl_ok url_parses config then 0 else 1) +
     (if email_ok config then 0 else 1) +
     (if field_present (p_apiToken config) then 0 else 1) +
     (if field_present (p_projectKey config) then 0 else 1) +
     (if field_present (p_issueType config) then 0 else 1)"

subsection \<open>Sample inputs\<close>

text \<open>
  Elements as the mock scraper of \<open>scraper.ts\<close> returns them, a link with a relative
  href and a link with an absolute one.
\<close>

definition sample_button :: ScrapedElement where
  \<open>sample_button =
     \<lparr> el_id = ''1'', el_type = button, el_selector = ''#login-btn'', el_text = Some ''Login'',
       el_attributes = [''id'' \<mapsto> ''login-btn'', ''class'' \<mapsto> ''btn btn-primary''],
       el_xpath = ''//*[@id="login-btn"]'', el_position = (100, 200) \<rparr>\<close>

definition sample_link :: ScrapedElement where
  \<open>sample_link =
     \<lparr> el_id = ''4'', el_type = link, el_selector = ''a[href="/signup"]'', el_text = Some ''Sign Up'',
       el_attributes = [''href'' \<mapsto> ''/signup'', ''class'' \<mapsto> ''link''],
       el_xpath = ''//a[@href="/signup"]'', el_position = (200, 220) \<rparr>\<close>

definition sample_relative_link :: ScrapedElement where
  \<open>sample_relative_link =
     \<lparr> el_id = ''6'', el_type = link, el_selector = ''a.about'', el_text = Some ''About'',
       el_attributes = [''href'' \<mapsto> ''about.html''],
       el_xpath = ''//a[@class="about"]'', el_position = (10, 20) \<rparr>\<close>

definition sample_absolute_link :: ScrapedElement where
  \<open>sample_absolute_link =
     \<lparr> el_id = ''7'', el_type = link, el_selector = ''a.docs'', el_text = Some ''Docs'',
       el_attributes = [''href'' \<mapsto> ''https://docs.example.org/start''],
       el_xpath = ''//a[@class="docs"]'', el_position = (30, 40) \<rparr>\<close>

definition sample_form :: ScrapedElement where
  \<open>sample_form =
     \<lparr> el_id = ''5'', el_type = form, el_selector = ''#contact-form'', el_text = None,
       el_attributes = [''id'' \<mapsto> ''contact-form'', ''method'' \<mapsto> ''POST''],
       el_xpath = ''//*[@id="contact-form"]'', el_position = (0, 100) \<rparr>\<close>

definition sample_config :: "ScrapedElement list \<Rightarrow> string \<Rightarrow> GenerateTestsConfig" where
  "sample_config elements framework =
     \<lparr> cfg_elements = elements, cfg_framework = framework, cfg_baseUrl = ''https://example.com'',
       cfg_includeValidation = True, cfg_includeNegativeTests = True \<rparr>"

text \<open>An environment whose clock stands still, a failed execution and its test case.\<close>

definition sample_env :: "int \<Rightarrow> env" where
  "sample_env now = \<lparr> clock = (\<lambda>k. now), random_tag = (\<lambda>k. ''k3j9x2m1q''), random_below = (\<lambda>k n. 0) \<rparr>"

definition sample_testCase :: "Priority \<Rightarrow> TestCase" where
  "sample_testCase p =
     \<lparr> tc_id = ''input-test-1'', tc_name = ''Input Field Test - email'',
       tc_description = ''Test filling the email field'', tc_framework = ''playwright'',
       tc_code = Undefined, tc_elements = [''2''], tc_priority = p, tc_category = test_functional \<rparr>"

definition sample_execution :: "string option \<Rightarrow> TestExecution" where
  "sample_execution err =
     \<lparr> ex_id = ''exec-1'', ex_testCaseId = ''input-test-1'', ex_status = failed,
       ex_duration = 1200, ex_error = err, ex_screenshot = None, ex_timestamp = 0 \<rparr>"

definition sample_detection :: "BugDetectionConfig" where
  "sample_detection =
     \<lparr> enableVisualTesting = False, enablePerformanceTesting = False,
       enableAccessibilityTesting = False,
       thresholds = \<lparr> loadTime = 3000, visualDifference = 1 / 10, accessibilityScore = 90 \<rparr> \<rparr>"

text \<open>The initial tracker configuration of the \<open>JiraIntegration\<close> component, and a defect.\<close>

definition sample_jira :: JiraConfig where
  "sample_jira =
     \<lparr> jira_baseUrl = '''', jira_email = '''', jira_apiToken = '''', jira_projectKey = '''',
       jira_issueType = ''Bug'', jira_autoCreateTickets = False \<rparr>"

definition sample_iso :: "int \<Rightarrow> string + string" where
  "sample_iso t = Inr ''1970-01-01T00:00:00.000Z''"

definition sample_bug :: Bug where
  "sample_bug = hd (fst (generateMockPerformanceBugs (sample_env 0) 0))"

section \<open>Strings\<close>

lemma to_lower_char_adds_32:
  assumes "is_upper_char c"
  shows "(of_char (to_lower_char c) :: nat) = of_char c + 32"
proof (cases c)
  case (Char b0 b1 b2 b3 b4 b5 b6 b7)
  with assms show ?thesis
    by (cases b0; cases b1; cases b2; cases b3; cases b4; cases b5; cases b6; cases b7;
        simp add: to_lower_char_def is_upper_char_def)
qed

lemma includes_str_sublist: "includes_str s t \<longleftrightarrow> sublist t s"
  by (induction s) (simp_all add: sublist_Cons_right)

lemma sublist_map_iff: "sublist t (map f s) \<longleftrightarrow> (\<exists>u. sublist u s \<and> map f u = t)"
proof
  assume "sublist t (map f s)"
  then obtain ps ss where "map f s = ps @ t @ ss" by (auto simp: sublist_def)
  then obtain a r where a: "s = a @ r" "map f r = t @ ss"
    by (metis map_eq_append_conv)
  then obtain b c where "r = b @ c" "map f b = t"
    by (metis map_eq_append_conv)
  with a show "\<exists>u. sublist u s \<and> map f u = t" by (auto simp: sublist_def)
next
  assume "\<exists>u. sublist u s \<and> map f u = t"
  then obtain u ps ss where "s = ps @ u @ ss" "map f u = t"
    by (auto simp: sublist_def)
  then have "map f s = map f ps @ t @ map f ss" by simp
  then show "sublist t (map f s)" unfolding sublist_def by blast
qed

lemma or_else_empty: "or_else x [] = (case x of None \<Rightarrow> [] | Some s \<Rightarrow> s)"
  by (simp add: or_else_def split: option.splits)

lemma digit_char_inj: "a < 10 \<Longrightarrow> b < 10 \<Longrightarrow> digit_char a = digit_char b \<Longrightarrow> a = b"
proof -
  assume a: "a < 10" and b: "b < 10" and e: "digit_char a = digit_char b"
  have d: "distinct ''0123456789''" by simp
  have "length ''0123456789'' = 10" by simp
  with a b e d show "a = b"
    unfolding digit_char_def by (metis nth_eq_iff_index_eq)
qed

lemma show_nat_nonempty: "show_nat n \<noteq> []"
  by (subst show_nat.simps) simp

lemma show_nat_inj: "show_nat n = show_nat m \<Longrightarrow> n = m"
proof (induction n arbitrary: m rule: show_nat.induct)
  case (1 n)
  show ?case
  proof (cases "n < 10")
    case True
    then have n: "show_nat n = [digit_char n]" by (subst show_nat.simps) simp
    show ?thesis
    proof (cases "m < 10")
      case mt: True
      then have "show_nat m = [digit_char m]" by (subst show_nat.simps) simp
      with n "1.prems" True mt show ?thesis by (simp add: digit_char_inj)
    next
      case mf: False
      then have "show_nat m = show_nat (m div 10) @ [digit_char (m mod 10)]"
        by (subst show_nat.simps) simp
      with n "1.prems" show_nat_nonempty[of "m div 10"] show ?thesis by simp
    qed
  next
    case False
    then have n: "show_nat n = show_nat (n div 10) @ [digit_char (n mod 10)]"
      by (subst show_nat.simps) simp
    show ?thesis
    proof (cases "m < 10")
      case mt: True
      then have "show_nat m = [digit_char m]" by (subst show_nat.simps) simp
      with n "1.prems" show_nat_nonempty[of "n div 10"] show ?thesis by simp
    next
      case mf: False
      then have m: "show_nat m = show_nat (m div 10) @ [digit_char (m mod 10)]"
        by (subst show_nat.simps) simp
      from n m "1.prems" have a: "show_nat (n div 10) = show_nat (m div 10)"
        and b: "digit_char (n mod 10) = digit_char (m mod 10)" by simp_all
      from "1.IH"[OF False a] have "n div 10 = m div 10" .
      moreover from b have "n mod 10 = m mod 10" by (intro digit_char_inj) simp_all
      ultimately show ?thesis by (metis div_mult_mod_eq)
    qed
  qed
qed

section \<open>Classification: severity, purity, thresholds\<close>

text \<open>
  The code lower-cases the error text and looks for the four lower-case words; that is
  containment without regard to case.
\<close>

lemma contains_ci_code:
  "map to_lower_char w = w \<Longrightarrow> contains_ci txt w \<longleftrightarrow> includes_str (toLowerCase txt) w"
  by (simp add: contains_ci_def includes_str_sublist toLowerCase_def sublist_map_iff)

lemma lower_literals:
  "map to_lower_char ''timeout'' = ''timeout''"
  "map to_lower_char ''not found'' = ''not found''"
  "map to_lower_char ''assertion'' = ''assertion''"
  "map to_lower_char ''expected'' = ''expected''"
  by (simp_all add: to_lower_char_def is_upper_char_def)

lemmas contains_ci_literals =
  contains_ci_code[OF lower_literals(1)] contains_ci_code[OF lower_literals(2)]
  contains_ci_code[OF lower_literals(3)] contains_ci_code[OF lower_literals(4)]

lemma determineBugSeverity_spec:
  "determineBugSeverity (or_else err []) p = spec_severity err p"
  unfolding determineBugSeverity_def spec_severity_def or_else_empty Let_def contains_ci_literals
  by (rule refl)

lemma created_severity:
  "bug_severity (fst (createBugFromFailedTest e k x tc cfg)) = spec_severity (ex_error x) (tc_priority tc)"
  by (simp add: createBugFromFailedTest_def Let_def determineBugSeverity_spec)

lemma eval_lower: "toLowerCase ''Timeout waiting for element'' = ''timeout waiting for element''"
  "toLowerCase ''Assertion failed: expected X'' = ''assertion failed: expected x''"
  by (simp_all add: toLowerCase_def to_lower_char_def is_upper_char_def)

lemma mock_snd:
  "snd (generateMockVisualBugs e k) = k + 2"
  "snd (generateMockPerformanceBugs e k) = k + 2"
  "snd (generateMockAccessibilityBugs e k) = k + 2"
  by (simp_all add: generateMockVisualBugs_def generateMockPerformanceBugs_def generateMockAccessibilityBugs_def)

lemma detectBugs_fst:
  "\<exists>k1 k2 k3. fst (detectBugs e k exs tcs cfg) =
     fst (detect_loop e tcs cfg (filter (\<lambda>x. ex_status x = failed) exs) [] k)
     @ (if enableVisualTesting cfg then fst (generateMockVisualBugs e k1) else [])
     @ (if enablePerformanceTesting cfg then fst (generateMockPerformanceBugs e k2) else [])
     @ (if enableAccessibilityTesting cfg then fst (generateMockAccessibilityBugs e k3) else [])"
proof -
  define k1 where "k1 = snd (detect_loop e tcs cfg (filter (\<lambda>x. ex_status x = failed) exs) [] k)"
  define k2 where "k2 = (if enableVisualTesting cfg then k1 + 2 else k1)"
  define k3 where "k3 = (if enablePerformanceTesting cfg then k2 + 2 else k2)"
  have "fst (detectBugs e k exs tcs cfg) =
     fst (detect_loop e tcs cfg (filter (\<lambda>x. ex_status x = failed) exs) [] k)
     @ (if enableVisualTesting cfg then fst (generateMockVisualBugs e k1) else [])
     @ (if enablePerformanceTesting cfg then fst (generateMockPerformanceBugs e k2) else [])
     @ (if enableAccessibilityTesting cfg then fst (generateMockAccessibilityBugs e k3) else [])"
    unfolding k1_def k2_def k3_def
    by (simp add: detectBugs_def Let_def case_prod_beta mock_snd)
  then show ?thesis by blast
qed

lemma detect_loop_severity:
  "map bug_severity (fst (detect_loop e tcs cfg xs bugs k)) =
   map bug_severity bugs @
   map (\<lambda>(x, tc). spec_severity (ex_error x) (tc_priority tc))
     (concat (map (\<lambda>x. case find (\<lambda>tc. tc_id tc = ex_testCaseId x) tcs of
                          None \<Rightarrow> [] | Some tc \<Rightarrow> [(x, tc)]) xs))"
proof (induction xs arbitrary: bugs k)
  case Nil
  then show ?case by simp
next
  case (Cons x xs)
  show ?case
  proof (cases "find (\<lambda>tc. tc_id tc = ex_testCaseId x) tcs")
    case None
    then show ?thesis using Cons.IH by simp
  next
    case (Some tc)
    have "bug_severity (fst (createBugFromFailedTest e k x tc cfg)) = spec_severity (ex_error x) (tc_priority tc)"
      by (simp add: createBugFromFailedTest_def Let_def determineBugSeverity_spec)
    then show ?thesis using Some Cons.IH by (auto split: prod.splits)
  qed
qed

lemma detectBugs_severity:
  "map bug_severity (fst (detectBugs e k exs tcs cfg)) =
     map (\<lambda>(x, tc). spec_severity (ex_error x) (tc_priority tc)) (failed_resolved exs tcs)
     @ probe_severities cfg"
proof -
  obtain k1 k2 k3 where a: "fst (detectBugs e k exs tcs cfg) =
     fst (detect_loop e tcs cfg (filter (\<lambda>x. ex_status x = failed) exs) [] k)
     @ (if enableVisualTesting cfg then fst (generateMockVisualBugs e k1) else [])
     @ (if enablePerformanceTesting cfg then fst (generateMockPerformanceBugs e k2) else [])
     @ (if enableAccessibilityTesting cfg then fst (generateMockAccessibilityBugs e k3) else [])"
    using detectBugs_fst by blast
  show ?thesis
    unfolding a
    by (simp add: detect_loop_severity failed_resolved_def probe_severities_def
        generateMockVisualBugs_def generateMockPerformanceBugs_def generateMockAccessibilityBugs_def)
qed

text \<open>
  Claim C1. The severities of the defects \<open>detectBugs\<close> returns are, in order, the
  severities the rule of the specification gives to the failed results whose
  specification is known (from the result's error text and the specification's
  priority), followed by those of the probe findings; each defect made from a failed
  result has the severity of the rule, which is minor for an absent error. In
  particular the error
  "Timeout waiting for element" against a high-priority specification gives critical,
  and "Assertion failed: expected X" against a medium-priority one gives minor.
\<close>

theorem C1_severity_rule:
  "map bug_severity (fst (detectBugs e k exs tcs cfg)) =
     map (\<lambda>(x, tc). spec_severity (ex_error x) (tc_priority tc)) (failed_resolved exs tcs)
     @ probe_severities cfg
   \<and> bug_severity (fst (createBugFromFailedTest e k x tc cfg)) = spec_severity (ex_error x) (tc_priority tc)
   \<and> spec_severity None (tc_priority tc) = minor
   \<and> map bug_severity (fst (detectBugs e k [sample_execution (Some ''Timeout waiting for element'')]
         [sample_testCase high] sample_detection)) = [critical]
   \<and> map bug_severity (fst (detectBugs e k [sample_execution (Some ''Assertion failed: expected X'')]
         [sample_testCase medium] sample_detection)) = [minor]"
proof -
  have a: "determineBugSeverity ''Timeout waiting for element'' high = critical"
    by (simp add: determineBugSeverity_def eval_lower)
  have b: "determineBugSeverity ''Assertion failed: expected X'' medium = minor"
    by (simp add: determineBugSeverity_def eval_lower)
  have "map bug_severity (fst (detectBugs e k [sample_execution (Some ''Timeout waiting for element'')]
         [sample_testCase high] sample_detection)) = [critical]"
    using a
    by (simp add: detectBugs_def sample_execution_def sample_testCase_def sample_detection_def
        createBugFromFailedTest_def or_else_def Let_def)
  moreover have "map bug_severity (fst (detectBugs e k [sample_execution (Some ''Assertion failed: expected X'')]
         [sample_testCase medium] sample_detection)) = [minor]"
    using b
    by (simp add: detectBugs_def sample_execution_def sample_testCase_def sample_detection_def
        createBugFromFailedTest_def or_else_def Let_def)
  moreover have "spec_severity None (tc_priority tc) = minor"
    by (simp add: spec_severity_def contains_ci_literals toLowerCase_def)
  ultimately show ?thesis
    using detectBugs_severity created_severity by blast
qed

theorem C1_severity_rule_witness:
  "map bug_severity (fst (detectBugs (sample_env 0) 0
       [sample_execution (Some ''Timeout waiting for element'')] [sample_testCase high]
       sample_detection)) = [critical]
   \<and> map bug_severity (fst (detectBugs (sample_env 0) 0
       [sample_execution (Some ''Assertion failed: expected X'')] [sample_testCase medium]
       sample_detection)) = [minor]"
  using C1_severity_rule[of "sample_env 0" 0 "[]" "[]" sample_detection
      "sample_execution None" "sample_testCase high"]
  by blast

lemma erase_created:
  "erase_generated (fst (createBugFromFailedTest e k x tc cfg)) =
   erase_generated (fst (createBugFromFailedTest e' k' x tc cfg'))"
  by (simp add: erase_generated_def createBugFromFailedTest_def Let_def)

lemma detect_loop_erased:
  "map erase_generated bugs = map erase_generated bugs' \<Longrightarrow>
   map erase_generated (fst (detect_loop e tcs cfg xs bugs k)) =
   map erase_generated (fst (detect_loop e' tcs cfg' xs bugs' k'))"
proof (induction xs arbitrary: bugs bugs' k k')
  case Nil
  then show ?case by simp
next
  case (Cons x xs)
  show ?case
  proof (cases "find (\<lambda>tc. tc_id tc = ex_testCaseId x) tcs")
    case None
    then show ?thesis using Cons.IH[OF Cons.prems] by simp
  next
    case (Some tc)
    obtain b j where c1: "createBugFromFailedTest e k x tc cfg = (b, j)" by (cases "createBugFromFailedTest e k x tc cfg")
    obtain b' j' where c2: "createBugFromFailedTest e' k' x tc cfg' = (b', j')" by (cases "createBugFromFailedTest e' k' x tc cfg'")
    have "erase_generated b = erase_generated b'"
      using erase_created[of e k x tc cfg e' k' cfg'] c1 c2 by simp
    with Cons.prems have "map erase_generated (bugs @ [b]) = map erase_generated (bugs' @ [b'])" by simp
    from Cons.IH[OF this] show ?thesis using Some c1 c2 by simp
  qed
qed

lemma mock_erased:
  "map erase_generated (fst (generateMockVisualBugs e k)) = map erase_generated (fst (generateMockVisualBugs e' k'))"
  "map erase_generated (fst (generateMockPerformanceBugs e k)) = map erase_generated (fst (generateMockPerformanceBugs e' k'))"
  "map erase_generated (fst (generateMockAccessibilityBugs e k)) = map erase_generated (fst (generateMockAccessibilityBugs e' k'))"
  by (simp_all add: erase_generated_def generateMockVisualBugs_def generateMockPerformanceBugs_def generateMockAccessibilityBugs_def)

lemma detectBugs_erased:
  "map erase_generated (fst (detectBugs e k exs tcs cfg)) =
   map erase_generated (fst (detectBugs e' k' exs tcs cfg))"
proof -
  obtain k1 k2 k3 where a: "fst (detectBugs e k exs tcs cfg) =
     fst (detect_loop e tcs cfg (filter (\<lambda>x. ex_status x = failed) exs) [] k)
     @ (if enableVisualTesting cfg then fst (generateMockVisualBugs e k1) else [])
     @ (if enablePerformanceTesting cfg then fst (generateMockPerformanceBugs e k2) else [])
     @ (if enableAccessibilityTesting cfg then fst (generateMockAccessibilityBugs e k3) else [])"
    using detectBugs_fst by blast
  obtain j1 j2 j3 where b: "fst (detectBugs e' k' exs tcs cfg) =
     fst (detect_loop e' tcs cfg (filter (\<lambda>x. ex_status x = failed) exs) [] k')
     @ (if enableVisualTesting cfg then fst (generateMockVisualBugs e' j1) else [])
     @ (if enablePerformanceTesting cfg then fst (generateMockPerformanceBugs e' j2) else [])
     @ (if enableAccessibilityTesting cfg then fst (generateMockAccessibilityBugs e' j3) else [])"
    using detectBugs_fst by blast
  have l: "map erase_generated (fst (detect_loop e tcs cfg (filter (\<lambda>x. ex_status x = failed) exs) [] k))
     = map erase_generated (fst (detect_loop e' tcs cfg (filter (\<lambda>x. ex_status x = failed) exs) [] k'))"
    by (rule detect_loop_erased) simp
  show ?thesis
    unfolding a b using l mock_erased[of e k1 e' j1] mock_erased[of e k2 e' j2] mock_erased[of e k3 e' j3]
    by simp
qed

lemma severity_erased: "bug_severity (erase_generated b) = bug_severity b"
  and category_erased: "bug_category (erase_generated b) = bug_category b"
  by (simp_all add: erase_generated_def)

lemma map_field_erased:
  assumes "map erase_generated xs = map erase_generated ys"
  shows "map bug_severity xs = map bug_severity ys" and "map bug_category xs = map bug_category ys"
proof -
  have "map bug_severity xs = map bug_severity (map erase_generated xs)" by (simp add: severity_erased)
  also have "\<dots> = map bug_severity (map erase_generated ys)" using assms by simp
  finally show "map bug_severity xs = map bug_severity ys" by (simp add: severity_erased)
  have "map bug_category xs = map bug_category (map erase_generated xs)" by (simp add: category_erased)
  also have "\<dots> = map bug_category (map erase_generated ys)" using assms by simp
  finally show "map bug_category xs = map bug_category ys" by (simp add: category_erased)
qed

text \<open>
  Claim C3, as amended. Two runs of \<open>detectBugs\<close> on the same results, specifications
  and configuration, whatever the clock and the random generator give them, return
  defects equal in every field but the generated identifier and the two timestamps
  \<open>createdAt\<close> and \<open>updatedAt\<close>, which are read from the wall clock; in particular
  their severities and categories are the same.
\<close>

theorem C3_equal_but_generated:
  "map erase_generated (fst (detectBugs e1 k1 exs tcs cfg)) =
     map erase_generated (fst (detectBugs e2 k2 exs tcs cfg))
   \<and> map bug_severity (fst (detectBugs e1 k1 exs tcs cfg)) =
     map bug_severity (fst (detectBugs e2 k2 exs tcs cfg))
   \<and> map bug_category (fst (detectBugs e1 k1 exs tcs cfg)) =
     map bug_category (fst (detectBugs e2 k2 exs tcs cfg))"
  using detectBugs_erased[of e1 k1 exs tcs cfg e2 k2] map_field_erased by blast

text \<open>
  As the claim states it, equality in all fields except identifiers, it fails: the same
  failed result classified at clock reading 0 and at clock reading 1 gives defects that
  differ once their identifiers are blanked.
\<close>

theorem C3_counterexample:
  "map erase_id (fst (detectBugs (sample_env 0) 0 [sample_execution None] [sample_testCase high] sample_detection))
   \<noteq> map erase_id (fst (detectBugs (sample_env 1) 0 [sample_execution None] [sample_testCase high] sample_detection))"
  by (simp add: detectBugs_def sample_execution_def sample_testCase_def sample_detection_def
        createBugFromFailedTest_def Let_def erase_id_def sample_env_def)

lemma created_thresholds:
  "createBugFromFailedTest e k x tc (cfg\<lparr>thresholds := t\<rparr>) = createBugFromFailedTest e k x tc cfg"
  by (simp add: createBugFromFailedTest_def)

lemma detect_loop_thresholds:
  "detect_loop e tcs (cfg\<lparr>thresholds := t\<rparr>) xs bugs k = detect_loop e tcs cfg xs bugs k"
  by (induction xs arbitrary: bugs k) (simp_all add: created_thresholds split: option.splits prod.splits)

text \<open>
  Claim C10. The thresholds of the configuration are not read: replacing them by any
  others leaves the result of \<open>detectBugs\<close> on the same results and specifications,
  under the same environment, unchanged.
\<close>

theorem C10_thresholds_unused:
  "detectBugs e k exs tcs (cfg\<lparr>thresholds := t\<rparr>) = detectBugs e k exs tcs cfg"
  by (simp add: detectBugs_def detect_loop_thresholds)

section \<open>Synthesis: workflow, coverage, links, framework\<close>

lemma forEach_elements_concat:
  "forEach_elements config els i acc =
     acc @ concat (map (\<lambda>(index, element). forEach_body config element index) (enumerate i els))"
  by (induction els arbitrary: i acc) simp_all

lemma generateTestCases_shape:
  "generateTestCases config =
     Resolved (per_element_specs config @
       (if has_form (cfg_elements config)
        then [generateWorkflowTest (cfg_elements config) (cfg_framework config) (cfg_baseUrl config)]
        else []))"
  by (simp add: generateTestCases_def Let_def forEach_elements_concat per_element_specs_def
      has_form_def list_ex_iff filter_empty_conv)

lemma forEach_body_not_workflow: "t \<in> set (forEach_body config el i) \<Longrightarrow> \<not> is_workflow_spec t"
  by (cases "el_type el")
    (auto simp: forEach_body_def is_workflow_spec_def generateButtonTest_def generateInputTest_def
      generateNegativeInputTest_def generateLinkTest_def generateFormTest_def Let_def split: if_splits)

lemma per_element_not_workflow: "filter is_workflow_spec (per_element_specs config) = []"
  by (auto simp: per_element_specs_def filter_empty_conv forEach_body_not_workflow)

lemma workflow_is_workflow: "is_workflow_spec (generateWorkflowTest els fw b)"
  by (simp add: is_workflow_spec_def generateWorkflowTest_def)

text \<open>
  Claim C2. The specifications returned are the per-element ones followed by the
  workflow specifications among them; these are exactly one when the elements hold a
  form and none otherwise, and that one has category integration, priority high and
  covers the identifiers of all the input elements.
\<close>

theorem C2_workflow_spec:
  "\<exists>ts. generateTestCases config = Resolved ts
     \<and> ts = per_element_specs config @ filter is_workflow_spec ts
     \<and> filter is_workflow_spec ts =
         (if has_form (cfg_elements config)
          then [generateWorkflowTest (cfg_elements config) (cfg_framework config) (cfg_baseUrl config)]
          else [])
     \<and> tc_category (generateWorkflowTest (cfg_elements config) (cfg_framework config) (cfg_baseUrl config)) = test_integration
     \<and> tc_priority (generateWorkflowTest (cfg_elements config) (cfg_framework config) (cfg_baseUrl config)) = high
     \<and> tc_elements (generateWorkflowTest (cfg_elements config) (cfg_framework config) (cfg_baseUrl config)) = map el_id (cfg_elements config)"
  by (simp add: generateTestCases_shape per_element_not_workflow workflow_is_workflow)
    (simp add: generateWorkflowTest_def)

theorem C2_workflow_spec_witness:
  "\<exists>ts. generateTestCases (sample_config [sample_button, sample_form] ''playwright'') = Resolved ts
     \<and> filter is_workflow_spec ts =
         [generateWorkflowTest [sample_button, sample_form] ''playwright'' ''https://example.com'']
     \<and> tc_elements (generateWorkflowTest [sample_button, sample_form] ''playwright'' ''https://example.com'') = [''1'', ''5'']"
proof -
  let ?c = "sample_config [sample_button, sample_form] ''playwright''"
  have c: "cfg_elements ?c = [sample_button, sample_form]" "cfg_framework ?c = ''playwright''"
    "cfg_baseUrl ?c = ''https://example.com''"
    by (simp_all add: sample_config_def)
  have f: "has_form [sample_button, sample_form]"
    by (simp add: has_form_def sample_form_def)
  have i: "map el_id [sample_button, sample_form] = [''1'', ''5'']"
    by (simp add: sample_button_def sample_form_def)
  from C2_workflow_spec[of ?c] show ?thesis
    unfolding c using f i by auto
qed

lemma forEach_body_covers:
  "t \<in> set (forEach_body config el i) \<Longrightarrow> tc_elements t = [el_id el] \<and> tc_framework t = cfg_framework config"
  by (cases "el_type el")
    (auto simp: forEach_body_def generateButtonTest_def generateInputTest_def
      generateNegativeInputTest_def generateLinkTest_def generateFormTest_def Let_def split: if_splits)

lemma per_element_covers:
  assumes "t \<in> set (per_element_specs config)"
  shows "\<exists>el \<in> set (cfg_elements config). tc_elements t = [el_id el] \<and> tc_framework t = cfg_framework config"
proof -
  from assms obtain i el where ie: "(i, el) \<in> set (enumerate 0 (cfg_elements config))"
    and t: "t \<in> set (forEach_body config el i)"
    by (auto simp: per_element_specs_def)
  from ie have "el \<in> set (cfg_elements config)" by (auto simp: in_set_enumerate_eq)
  with forEach_body_covers[OF t] show ?thesis by blast
qed

text \<open>
  Claim C6. Every specification returned covers at least one element identifier, covers
  only identifiers of input elements, and carries the framework of the configuration.
\<close>

theorem C6_covered_elements:
  assumes "generateTestCases config = Resolved ts" and "t \<in> set ts"
  shows "tc_elements t \<noteq> []
     \<and> set (tc_elements t) \<subseteq> el_id ` set (cfg_elements config)
     \<and> tc_framework t = cfg_framework config"
proof -
  from assms(1) have ts: "ts = per_element_specs config @
       (if has_form (cfg_elements config)
        then [generateWorkflowTest (cfg_elements config) (cfg_framework config) (cfg_baseUrl config)]
        else [])"
    by (simp add: generateTestCases_shape)
  show ?thesis
  proof (cases "t \<in> set (per_element_specs config)")
    case True
    from per_element_covers[OF True] show ?thesis by auto
  next
    case False
    with ts assms(2) have hf: "has_form (cfg_elements config)"
      and t: "t = generateWorkflowTest (cfg_elements config) (cfg_framework config) (cfg_baseUrl config)"
      by (auto split: if_splits)
    from hf have "cfg_elements config \<noteq> []" by (auto simp: has_form_def)
    with t show ?thesis by (simp add: generateWorkflowTest_def)
  qed
qed

theorem C6_covered_elements_witness:
  "generateTestCases (sample_config [sample_button, sample_form] ''cypress'') =
     Resolved [generateButtonTest sample_button ''cypress'' ''https://example.com'' 0,
               generateFormTest sample_form ''cypress'' ''https://example.com'' 1,
               generateWorkflowTest [sample_button, sample_form] ''cypress'' ''https://example.com'']
   \<and> tc_elements (generateWorkflowTest [sample_button, sample_form] ''cypress'' ''https://example.com'') \<noteq> []
   \<and> set (tc_elements (generateWorkflowTest [sample_button, sample_form] ''cypress'' ''https://example.com''))
        \<subseteq> el_id ` set [sample_button, sample_form]
   \<and> tc_framework (generateWorkflowTest [sample_button, sample_form] ''cypress'' ''https://example.com'') = ''cypress''"
proof -
  let ?c = "sample_config [sample_button, sample_form] ''cypress''"
  let ?ts = "[generateButtonTest sample_button ''cypress'' ''https://example.com'' 0,
               generateFormTest sample_form ''cypress'' ''https://example.com'' 1,
               generateWorkflowTest [sample_button, sample_form] ''cypress'' ''https://example.com'']"
  have g: "generateTestCases ?c = Resolved ?ts"
    by (simp add: generateTestCases_def sample_config_def forEach_body_def sample_button_def sample_form_def)
  have m: "generateWorkflowTest [sample_button, sample_form] ''cypress'' ''https://example.com'' \<in> set ?ts"
    by simp
  have c: "cfg_elements ?c = [sample_button, sample_form]" "cfg_framework ?c = ''cypress''"
    by (simp_all add: sample_config_def)
  from C6_covered_elements[OF g m] g show ?thesis unfolding c by simp
qed

text \<open>
  The \<open>code\<close> of a specification for a framework outside the three: the value of an
  inherited property when the framework names one, \<open>undefined\<close> otherwise.
\<close>

lemma unsupported_code_value:
  assumes "\<not> supported_framework framework"
  shows "codeMap playwrightCode seleniumCode cypressCode framework =
           (if framework \<in> set object_prototype_keys then Inherited framework else Undefined)"
  using assms by (simp add: codeMap_def supported_framework_def)

text \<open>
  Claim C4, as amended. An empty element list gives the empty list, resolved. The
  framework is not checked: with a framework outside the three the call does not fail
  with a configuration error but resolves with a list of specifications.
\<close>

theorem C4_empty_and_unchecked:
  "generateTestCases (config\<lparr>cfg_elements := []\<rparr>) = Resolved []
   \<and> (\<not> supported_framework (cfg_framework config) \<longrightarrow>
        (\<exists>ts. generateTestCases config = Resolved ts))"
proof -
  have "generateTestCases (config\<lparr>cfg_elements := []\<rparr>) = Resolved []"
    by (simp add: generateTestCases_def)
  moreover have "\<exists>ts. generateTestCases config = Resolved ts"
    unfolding generateTestCases_shape by blast
  ultimately show ?thesis by blast
qed

theorem C4_empty_and_unchecked_witness:
  "\<not> supported_framework (cfg_framework (sample_config [sample_button] ''puppeteer''))
   \<and> (\<exists>ts. generateTestCases (sample_config [sample_button] ''puppeteer'') = Resolved ts)
   \<and> generateTestCases ((sample_config [sample_button] ''puppeteer'')\<lparr>cfg_elements := []\<rparr>) = Resolved []"
proof -
  let ?c = "sample_config [sample_button] ''puppeteer''"
  have a: "\<not> supported_framework (cfg_framework ?c)"
    by (simp add: supported_framework_def sample_config_def)
  from C4_empty_and_unchecked[of ?c] a show ?thesis by blast
qed

text \<open>
  As the claim states it, an unsupported framework failing the call, it fails: with the
  framework \<open>puppeteer\<close> and one button the call resolves with a button specification,
  whose \<open>code\<close> is \<open>undefined\<close>.
\<close>

theorem C4_counterexample:
  "generateTestCases (sample_config [sample_button] ''puppeteer'') =
     Resolved [\<lparr> tc_id = ''btn-test-0'', tc_name = ''Button Click Test - Login'',
       tc_description = ''Test clicking the Login element'', tc_framework = ''puppeteer'',
       tc_code = Undefined, tc_elements = [''1''], tc_priority = high, tc_category = test_functional \<rparr>]"
  by (simp add: generateTestCases_def sample_config_def sample_button_def forEach_body_def
      generateButtonTest_def codeMap_def object_prototype_keys_def or_else_def show_nat.simps
      digit_char_def)

lemma link_playwright_asserts:
  "sublist (url_assertion ''playwright'' (if startsWith href ''/'' then baseUrl @ href else href))
     (linkTest_playwrightCode element baseUrl selector href)"
proof -
  let ?u = "if startsWith href ''/'' then baseUrl @ href else href"
  have \<open>linkTest_playwrightCode element baseUrl selector href =
     (''\<newline>'' @
     ''import { test, expect } from \'@playwright/test\';\<newline>'' @
     ''\<newline>'' @
     ''test(\'Link navigation test - '' @ or_else (el_text element) ''Link'' @ ''\', async ({ page }) => {\<newline>'' @
     ''  await page.goto('' @ [CHR 0x27] @ baseUrl @ ''\');\<newline>'' @
     ''  await page.click('' @ [CHR 0x27] @ selector @ ''\');\<newline>'' @
     ''  '') @ url_assertion ''playwright'' ?u @ (''\<newline>'' @ ''});'')\<close>
    by (simp add: linkTest_playwrightCode_def url_assertion_def)
  then show ?thesis by (simp only: sublist_appendI)
qed

lemma link_selenium_asserts:
  "sublist (url_assertion ''selenium'' (if startsWith href ''/'' then baseUrl @ href else href))
     (linkTest_seleniumCode baseUrl selector href)"
proof -
  let ?u = "if startsWith href ''/'' then baseUrl @ href else href"
  have \<open>linkTest_seleniumCode baseUrl selector href =
     (''\<newline>'' @
     ''from selenium import webdriver\<newline>'' @
     ''from selenium.webdriver.common.by import By\<newline>'' @
     ''\<newline>'' @
     ''def test_link_navigation():\<newline>'' @
     ''    driver = webdriver.Chrome()\<newline>'' @
     ''    try:\<newline>'' @
     ''        driver.get('' @ [CHR 0x27] @ baseUrl @ ''\')\<newline>'' @
     ''        link = driver.find_element(By.CSS_SELECTOR, '' @ [CHR 0x27] @ selector @ ''\')\<newline>'' @
     ''        link.click()\<newline>'' @
     ''        '') @ url_assertion ''selenium'' ?u @
     (''\<newline>'' @
     ''    finally:\<newline>'' @
     ''        driver.quit()'')\<close>
    by (simp add: linkTest_seleniumCode_def url_assertion_def)
  then show ?thesis by (simp only: sublist_appendI)
qed

lemma link_cypress_asserts:
  "sublist (url_assertion ''cypress'' (if startsWith href ''/'' then baseUrl @ href else href))
     (linkTest_cypressCode element baseUrl selector href)"
proof -
  let ?u = "if startsWith href ''/'' then baseUrl @ href else href"
  have \<open>linkTest_cypressCode element baseUrl selector href =
     (''\<newline>'' @
     ''describe(\'Link Tests\', () => {\<newline>'' @
     ''  it(\'should navigate to '' @ or_else (el_text element) ''link'' @ '' destination\', () => {\<newline>'' @
     ''    cy.visit('' @ [CHR 0x27] @ baseUrl @ ''\');\<newline>'' @
     ''    cy.get('' @ [CHR 0x27] @ selector @ ''\').click();\<newline>'' @
     ''    '') @ url_assertion ''cypress'' ?u @
     (''\<newline>'' @
     ''  });\<newline>'' @
     ''});'')\<close>
    by (simp add: linkTest_cypressCode_def url_assertion_def)
  then show ?thesis by (simp only: sublist_appendI)
qed

lemma generateLinkTest_asserts:
  assumes "supported_framework framework"
  shows "\<exists>body. tc_code (generateLinkTest element framework baseUrl index) = Code body
           \<and> sublist (url_assertion framework (link_expected_url baseUrl element)) body"
  using assms link_playwright_asserts link_selenium_asserts link_cypress_asserts
  by (auto simp: supported_framework_def generateLinkTest_def Let_def codeMap_def link_expected_url_def)

lemma forEach_body_other_index:
  "j \<noteq> i \<Longrightarrow> filter (is_link_spec_of i) (forEach_body config el j) = []"
  by (cases "el_type el")
    (auto simp: forEach_body_def is_link_spec_of_def generateButtonTest_def generateInputTest_def
      generateNegativeInputTest_def generateLinkTest_def generateFormTest_def Let_def
      dest: show_nat_inj)

lemma forEach_body_link:
  "el_type el = link \<Longrightarrow>
   forEach_body config el i = [generateLinkTest el (cfg_framework config) (cfg_baseUrl config) i]"
  by (simp add: forEach_body_def)

lemma filter_later_blocks:
  "i < n \<Longrightarrow>
   filter (is_link_spec_of i)
     (concat (map (\<lambda>(index, element). forEach_body config element index) (enumerate n els))) = []"
  by (induction els arbitrary: n) (simp_all add: forEach_body_other_index)

lemma filter_blocks:
  "i < length els \<Longrightarrow>
   filter (is_link_spec_of (n + i))
     (concat (map (\<lambda>(index, element). forEach_body config element index) (enumerate n els)))
   = filter (is_link_spec_of (n + i)) (forEach_body config (els ! i) (n + i))"
proof (induction els arbitrary: n i)
  case Nil
  then show ?case by simp
next
  case (Cons x xs)
  show ?case
  proof (cases i)
    case 0
    then show ?thesis by (simp add: filter_later_blocks)
  next
    case (Suc i')
    with Cons.prems have "i' < length xs" by simp
    from Cons.IH[OF this, of "Suc n"] Suc show ?thesis
      by (simp add: forEach_body_other_index)
  qed
qed

lemma link_spec_unique:
  assumes "i < length (cfg_elements config)" and "el_type (cfg_elements config ! i) = link"
  shows "filter (is_link_spec_of i) (per_element_specs config) =
           [generateLinkTest (cfg_elements config ! i) (cfg_framework config) (cfg_baseUrl config) i]"
  using filter_blocks[OF assms(1), of 0 config] assms(2)
  by (simp add: per_element_specs_def forEach_body_link is_link_spec_of_def generateLinkTest_def Let_def)

lemma absolute_no_slash: "spec_href_absolute h \<Longrightarrow> \<not> startsWith h ''/''"
  by (cases h) (auto simp: spec_href_absolute_def startsWith_def Let_def)

lemma link_expected_cases:
  "(startsWith (element_href el) ''/'' \<longrightarrow> link_expected_url b el = b @ element_href el)
   \<and> (spec_href_absolute (element_href el) \<longrightarrow> link_expected_url b el = element_href el)"
  using absolute_no_slash[of "element_href el"]
  by (auto simp: link_expected_url_def element_href_def Let_def)

text \<open>
  Claim C9, as amended. For the element at index \<open>i\<close>, of kind link, exactly one
  specification is pushed and exactly one returned specification has its navigation
  identifier; it is functional, of low priority, covers that element, and for each of
  the three frameworks its body asserts that the URL after the click equals \<open>baseUrl\<close>
  followed by the href when the href starts with \<open>/\<close>, and the href itself when the
  href is absolute.
\<close>

theorem C9_link_spec:
  assumes "i < length (cfg_elements config)" and "el_type (cfg_elements config ! i) = link"
  shows "\<exists>ts t. generateTestCases config = Resolved ts
     \<and> forEach_body config (cfg_elements config ! i) i = [t]
     \<and> filter (is_link_spec_of i) ts = [t]
     \<and> tc_category t = test_functional \<and> tc_priority t = low
     \<and> tc_elements t = [el_id (cfg_elements config ! i)]
     \<and> (supported_framework (cfg_framework config) \<longrightarrow>
          (\<exists>body u. tc_code t = Code body
             \<and> sublist (url_assertion (cfg_framework config) u) body
             \<and> u = link_expected_url (cfg_baseUrl config) (cfg_elements config ! i)
             \<and> (startsWith (element_href (cfg_elements config ! i)) ''/'' \<longrightarrow>
                  u = cfg_baseUrl config @ element_href (cfg_elements config ! i))
             \<and> (spec_href_absolute (element_href (cfg_elements config ! i)) \<longrightarrow>
                  u = element_href (cfg_elements config ! i))))"
proof -
  let ?el = "cfg_elements config ! i"
  let ?t = "generateLinkTest ?el (cfg_framework config) (cfg_baseUrl config) i"
  have w: "\<not> is_link_spec_of i (generateWorkflowTest (cfg_elements config) (cfg_framework config) (cfg_baseUrl config))"
    by (simp add: is_link_spec_of_def generateWorkflowTest_def)
  have "filter (is_link_spec_of i) (per_element_specs config @
       (if has_form (cfg_elements config)
        then [generateWorkflowTest (cfg_elements config) (cfg_framework config) (cfg_baseUrl config)]
        else [])) = [?t]"
    using link_spec_unique[OF assms] w by simp
  moreover have "forEach_body config ?el i = [?t]" using assms(2) by (rule forEach_body_link)
  moreover have "tc_category ?t = test_functional" "tc_priority ?t = low" "tc_elements ?t = [el_id ?el]"
    by (simp_all add: generateLinkTest_def Let_def)
  moreover have "supported_framework (cfg_framework config) \<longrightarrow>
          (\<exists>body u. tc_code ?t = Code body
             \<and> sublist (url_assertion (cfg_framework config) u) body
             \<and> u = link_expected_url (cfg_baseUrl config) ?el
             \<and> (startsWith (element_href ?el) ''/'' \<longrightarrow> u = cfg_baseUrl config @ element_href ?el)
             \<and> (spec_href_absolute (element_href ?el) \<longrightarrow> u = element_href ?el))"
    using generateLinkTest_asserts[of "cfg_framework config" ?el "cfg_baseUrl config" i]
      link_expected_cases[of ?el "cfg_baseUrl config"]
    by blast
  ultimately show ?thesis
    unfolding generateTestCases_shape by blast
qed

lemma sample_hrefs:
  "element_href sample_link = ''/signup''"
  "element_href sample_absolute_link = ''https://docs.example.org/start''"
  by (simp_all add: element_href_def sample_link_def sample_absolute_link_def or_else_def)

lemma sample_href_kinds:
  "startsWith ''/signup'' ''/''"
  "spec_href_absolute ''https://docs.example.org/start''"
  by (simp_all add: startsWith_def spec_href_absolute_def scheme_char_def)

theorem C9_link_spec_witness:
  "1 < length (cfg_elements (sample_config [sample_button, sample_link] ''playwright''))
   \<and> el_type (cfg_elements (sample_config [sample_button, sample_link] ''playwright'') ! 1) = link
   \<and> supported_framework ''playwright''
   \<and> startsWith (element_href sample_link) ''/''
   \<and> (\<exists>ts t. generateTestCases (sample_config [sample_button, sample_link] ''playwright'') = Resolved ts
        \<and> filter (is_link_spec_of 1) ts = [t]
        \<and> tc_category t = test_functional \<and> tc_priority t = low \<and> tc_elements t = [''4'']
        \<and> (\<exists>body. tc_code t = Code body
              \<and> sublist (url_assertion ''playwright'' ''https://example.com/signup'') body))
   \<and> 0 < length (cfg_elements (sample_config [sample_absolute_link] ''cypress''))
   \<and> el_type (cfg_elements (sample_config [sample_absolute_link] ''cypress'') ! 0) = link
   \<and> supported_framework ''cypress''
   \<and> spec_href_absolute (element_href sample_absolute_link)
   \<and> (\<exists>ts t. generateTestCases (sample_config [sample_absolute_link] ''cypress'') = Resolved ts
        \<and> filter (is_link_spec_of 0) ts = [t]
        \<and> (\<exists>body. tc_code t = Code body
              \<and> sublist (url_assertion ''cypress'' ''https://docs.example.org/start'') body))"
proof -
  let ?c = "sample_config [sample_button, sample_link] ''playwright''"
  let ?d = "sample_config [sample_absolute_link] ''cypress''"
  have h1: "1 < length (cfg_elements ?c)" by (simp add: sample_config_def)
  have h2: "el_type (cfg_elements ?c ! 1) = link" by (simp add: sample_config_def sample_link_def)
  have h3: "supported_framework ''playwright''" "supported_framework ''cypress''"
    by (simp_all add: supported_framework_def)
  have h4: "startsWith (element_href sample_link) ''/''"
    unfolding sample_hrefs by (rule sample_href_kinds)
  have c: "cfg_elements ?c ! 1 = sample_link" "cfg_framework ?c = ''playwright''"
    "cfg_baseUrl ?c = ''https://example.com''"
    by (simp_all add: sample_config_def)
  have i: "el_id sample_link = ''4''" by (simp add: sample_link_def)
  have g1: "0 < length (cfg_elements ?d)" by (simp add: sample_config_def)
  have g2: "el_type (cfg_elements ?d ! 0) = link" by (simp add: sample_config_def sample_absolute_link_def)
  have g4: "spec_href_absolute (element_href sample_absolute_link)"
    unfolding sample_hrefs by (rule sample_href_kinds)
  have d: "cfg_elements ?d ! 0 = sample_absolute_link" "cfg_framework ?d = ''cypress''"
    "cfg_baseUrl ?d = ''https://example.com''"
    by (simp_all add: sample_config_def)
  from C9_link_spec[OF h1 h2] h3 h4 have a: "\<exists>ts t. generateTestCases ?c = Resolved ts
        \<and> filter (is_link_spec_of 1) ts = [t]
        \<and> tc_category t = test_functional \<and> tc_priority t = low \<and> tc_elements t = [''4'']
        \<and> (\<exists>body. tc_code t = Code body
              \<and> sublist (url_assertion ''playwright'' ''https://example.com/signup'') body)"
    unfolding c i sample_hrefs by (metis append_Cons append_Nil)
  from C9_link_spec[OF g1 g2] h3 g4 have b: "\<exists>ts t. generateTestCases ?d = Resolved ts
        \<and> filter (is_link_spec_of 0) ts = [t]
        \<and> (\<exists>body. tc_code t = Code body
              \<and> sublist (url_assertion ''cypress'' ''https://docs.example.org/start'') body)"
    unfolding d sample_hrefs by metis
  from a b h1 h2 h3 h4 g1 g2 g4 show ?thesis by blast
qed

text \<open>
  As the claim states it, a relative href resolved against \<open>baseUrl\<close>, it fails: the
  href \<open>about.html\<close> is relative, and the body generated for it against
  \<open>https://example.com\<close> expects the URL \<open>about.html\<close> itself.
\<close>

theorem C9_counterexample:
  \<open>\<not> spec_href_absolute ''about.html''
   \<and> forEach_body (sample_config [sample_relative_link] ''playwright'') sample_relative_link 0 =
       [generateLinkTest sample_relative_link ''playwright'' ''https://example.com'' 0]
   \<and> tc_code (generateLinkTest sample_relative_link ''playwright'' ''https://example.com'' 0) =
       Code (''\<newline>'' @
         ''import { test, expect } from \'@playwright/test\';\<newline>'' @
         ''\<newline>'' @
         ''test(\'Link navigation test - About\', async ({ page }) => {\<newline>'' @
         ''  await page.goto(\'https://example.com\');\<newline>'' @
         ''  await page.click(\'a.about\');\<newline>'' @
         ''  await expect(page).toHaveURL(\'about.html\');\<newline>'' @
         ''});'')\<close>
  by (simp add: spec_href_absolute_def scheme_char_def forEach_body_def sample_config_def
      sample_relative_link_def generateLinkTest_def codeMap_def linkTest_playwrightCode_def
      or_else_def startsWith_def)

section \<open>Ticket mapping: priorities and configuration\<close>

text \<open>
  Claim C7. On the four severities the mapping gives Blocker, High, Medium and Low.
  Every severity meets its own case, so no result comes from the default branch, and
  no two severities share a priority.
\<close>

theorem C7_mapPriority:
  "mapBugSeverityToJiraPriority critical = ''Blocker''
   \<and> mapBugSeverityToJiraPriority major = ''High''
   \<and> mapBugSeverityToJiraPriority minor = ''Medium''
   \<and> mapBugSeverityToJiraPriority trivial = ''Low''
   \<and> (\<forall>s. mapBugSeverityToJiraPriority s \<in> {''Blocker'', ''High'', ''Medium'', ''Low''})
   \<and> inj mapBugSeverityToJiraPriority"
proof -
  have "\<And>s. mapBugSeverityToJiraPriority s \<in> {''Blocker'', ''High'', ''Medium'', ''Low''}"
    by (case_tac s) simp_all
  moreover have "inj mapBugSeverityToJiraPriority"
  proof (rule injI)
    fix a b assume "mapBugSeverityToJiraPriority a = mapBugSeverityToJiraPriority b"
    then show "a = b" by (cases a; cases b) simp_all
  qed
  ultimately show ?thesis by simp
qed

text \<open>
  The executable \<open>isValidEmail\<close> accepts exactly what the regular expression matches:
  a non-empty local part, an \<open>@\<close>, and two non-empty parts around a dot, none of them
  with a space or an \<open>@\<close>.
\<close>

lemma email_char_dot: "email_char CHR ''.''" and email_char_at: "\<not> email_char CHR ''@''"
  by (simp_all add: email_char_def is_space_def)

lemma isValidEmail_regex:
  "isValidEmail email \<longleftrightarrow>
     (\<exists>l d1 d2. email = l @ ''@'' @ d1 @ ''.'' @ d2
        \<and> l \<noteq> [] \<and> d1 \<noteq> [] \<and> d2 \<noteq> []
        \<and> list_all email_char l \<and> list_all email_char d1 \<and> list_all email_char d2)"
proof
  assume v: "isValidEmail email"
  define l where "l = takeWhile email_char email"
  from v obtain domain where r: "dropWhile email_char email = CHR ''@'' # domain"
    and l: "l \<noteq> []" and a: "list_all email_char domain"
    and e: "list_ex (\<lambda>i. domain ! i = CHR ''.'') [1 ..< length domain - 1]"
    by (auto simp: isValidEmail_def Let_def l_def split: list.splits)
  from e obtain i where i: "1 \<le> i" "i < length domain - 1" "domain ! i = CHR ''.''"
    by (auto simp: list_ex_iff)
  then have il: "i < length domain" by simp
  have d: "domain = take i domain @ ''.'' @ drop (Suc i) domain"
    using id_take_nth_drop[OF il] i(3) by simp
  have "email = l @ ''@'' @ domain"
    using takeWhile_dropWhile_id[of email_char email] r by (simp add: l_def)
  with d have "email = l @ ''@'' @ take i domain @ ''.'' @ drop (Suc i) domain" by simp
  moreover have "take i domain \<noteq> []" using i il by auto
  moreover have "drop (Suc i) domain \<noteq> []" using i by auto
  moreover have "list_all email_char l" by (simp add: l_def list_all_iff) (meson set_takeWhileD)
  moreover have "list_all email_char (take i domain)" "list_all email_char (drop (Suc i) domain)"
    using a by (auto simp: list_all_iff dest: in_set_takeD in_set_dropD)
  ultimately show "\<exists>l d1 d2. email = l @ ''@'' @ d1 @ ''.'' @ d2
        \<and> l \<noteq> [] \<and> d1 \<noteq> [] \<and> d2 \<noteq> []
        \<and> list_all email_char l \<and> list_all email_char d1 \<and> list_all email_char d2"
    using l by blast
next
  assume "\<exists>l d1 d2. email = l @ ''@'' @ d1 @ ''.'' @ d2
        \<and> l \<noteq> [] \<and> d1 \<noteq> [] \<and> d2 \<noteq> []
        \<and> list_all email_char l \<and> list_all email_char d1 \<and> list_all email_char d2"
  then obtain l d1 d2 where e: "email = l @ CHR ''@'' # (d1 @ CHR ''.'' # d2)"
    and n: "l \<noteq> []" "d1 \<noteq> []" "d2 \<noteq> []"
    and a: "list_all email_char l" "list_all email_char d1" "list_all email_char d2"
    by auto
  from a(1) have al: "\<forall>x \<in> set l. email_char x" by (simp add: list_all_iff)
  have t: "takeWhile email_char email = l"
    unfolding e using al email_char_at by (simp add: takeWhile_tail)
  have dw: "dropWhile email_char l = []" using al by simp
  have d: "dropWhile email_char email = CHR ''@'' # (d1 @ CHR ''.'' # d2)"
    unfolding e using email_char_at dw by (simp add: dropWhile_append3)
  have all: "list_all email_char (d1 @ CHR ''.'' # d2)"
    using a email_char_dot by simp
  have "1 \<le> length d1" using n by (cases d1) simp_all
  moreover have "length d1 < length (d1 @ CHR ''.'' # d2) - 1" using n by (cases d2) simp_all
  moreover have "(d1 @ CHR ''.'' # d2) ! length d1 = CHR ''.''" by simp
  ultimately have "list_ex (\<lambda>i. (d1 @ CHR ''.'' # d2) ! i = CHR ''.'') [1 ..< length (d1 @ CHR ''.'' # d2) - 1]"
    unfolding list_ex_iff by (intro bexI[of _ "length d1"]) simp_all
  with t d all n show "isValidEmail email"
    by (simp add: isValidEmail_def Let_def)
qed

lemma falsy_present: "falsy x \<longleftrightarrow> \<not> field_present x"
  by (simp add: falsy_def field_present_def split: option.splits)

lemma check_baseUrl_length:
  "length (check_baseUrl url_parses config) = (if baseUrl_ok url_parses config then 0 else 1)"
  by (simp add: check_baseUrl_def baseUrl_ok_def falsy_def or_else_def isValidUrl_def split: option.splits)

lemma check_email_length:
  "length (check_email config) = (if email_ok config then 0 else 1)"
  by (simp add: check_email_def email_ok_def falsy_def or_else_def split: option.splits)

lemma validate_length:
  "length (validateJiraConfig url_parses config) = violations url_parses config"
  by (simp add: validateJiraConfig_def violations_def check_baseUrl_length check_email_length falsy_present)

lemma validate_empty_iff:
  "validateJiraConfig url_parses config = [] \<longleftrightarrow>
     baseUrl_ok url_parses config \<and> email_ok config \<and> field_present (p_apiToken config)
     \<and> field_present (p_projectKey config) \<and> field_present (p_issueType config)"
proof -
  have "validateJiraConfig url_parses config = [] \<longleftrightarrow> violations url_parses config = 0"
    using validate_length[of url_parses config] by (metis length_0_conv)
  then show ?thesis by (simp add: violations_def)
qed

text \<open>
  The outcome of \<open>createJiraTicket\<close> is decided by the creation date of the defect
  alone.
\<close>

lemma createJiraTicket_rejects:
  assumes "toISOString (bug_createdAt bug) = Inl message"
  shows "createJiraTicket toISOString e k bug jira =
           (Rejected (''Failed to create Jira ticket: '' @ message), k)"
  using assms by (simp add: createJiraTicket_def formatBugDescriptionForJira_def Let_def)

lemma createJiraTicket_resolves_iff:
  "(\<exists>ticket. fst (createJiraTicket toISOString e k bug jira) = Resolved ticket)
     \<longleftrightarrow> (\<exists>created. toISOString (bug_createdAt bug) = Inr created)"
  by (auto simp: createJiraTicket_def formatBugDescriptionForJira_def Let_def split: sum.splits)

text \<open>
  Claim C5, as amended. \<open>validateJiraConfig\<close> reports one message for each of the five
  conditions that the configuration violates, all together: the list is empty exactly
  when the base URL is present and parses, the email is present and well-formed, and
  the API token, the project key and the issue type are present; an absent or empty
  base URL together with an absent or empty API token gives at least two messages.
  \<open>createJiraTicket\<close> does not run the validation and is not rejected on account of
  the configuration: whatever the configuration, it resolves with a ticket exactly
  when the creation date of the defect can be rendered.
\<close>

theorem C5_validation:
  "length (validateJiraConfig url_parses config) = violations url_parses config
   \<and> (validateJiraConfig url_parses config = [] \<longleftrightarrow>
        baseUrl_ok url_parses config \<and> email_ok config \<and> field_present (p_apiToken config)
        \<and> field_present (p_projectKey config) \<and> field_present (p_issueType config))
   \<and> (\<not> field_present (p_baseUrl config) \<and> \<not> field_present (p_apiToken config)
        \<longrightarrow> 2 \<le> length (validateJiraConfig url_parses config))
   \<and> ((\<exists>ticket. fst (createJiraTicket toISOString e k bug jira) = Resolved ticket)
        \<longleftrightarrow> (\<exists>created. toISOString (bug_createdAt bug) = Inr created))"
proof -
  have "\<not> field_present (p_baseUrl config) \<Longrightarrow> \<not> baseUrl_ok url_parses config"
    by (auto simp: field_present_def baseUrl_ok_def split: option.splits)
  then have "\<not> field_present (p_baseUrl config) \<and> \<not> field_present (p_apiToken config)
        \<longrightarrow> 2 \<le> violations url_parses config"
    by (auto simp: violations_def)
  then show ?thesis
    using validate_length[of url_parses config] validate_empty_iff[of url_parses config]
      createJiraTicket_resolves_iff[of toISOString e k bug jira]
    by simp
qed

theorem C5_validation_witness:
  "\<not> field_present (p_baseUrl (as_partial sample_jira))
   \<and> \<not> field_present (p_apiToken (as_partial sample_jira))
   \<and> 2 \<le> length (validateJiraConfig (\<lambda>u. True) (as_partial sample_jira))
   \<and> validateJiraConfig (\<lambda>u. True) (as_partial sample_jira) \<noteq> []
   \<and> (\<exists>ticket. fst (createJiraTicket sample_iso (sample_env 0) 0 sample_bug sample_jira) = Resolved ticket)"
proof -
  have a: "\<not> field_present (p_baseUrl (as_partial sample_jira))"
    "\<not> field_present (p_apiToken (as_partial sample_jira))"
    by (simp_all add: field_present_def as_partial_def sample_jira_def)
  have b: "\<exists>created. sample_iso (bug_createdAt sample_bug) = Inr created"
    by (simp add: sample_iso_def)
  note t = C5_validation[of "\<lambda>u. True" "as_partial sample_jira" sample_iso "sample_env 0" 0
      sample_bug sample_jira]
  from t a have l: "2 \<le> length (validateJiraConfig (\<lambda>u. True) (as_partial sample_jira))"
    by blast
  then have n: "validateJiraConfig (\<lambda>u. True) (as_partial sample_jira) \<noteq> []" by auto
  from t b have "\<exists>ticket. fst (createJiraTicket sample_iso (sample_env 0) 0 sample_bug sample_jira) = Resolved ticket"
    by blast
  with a l n show ?thesis by blast
qed

text \<open>
  The description of the sample defect, whose creation date is the epoch.
\<close>

lemma sample_description:
  \<open>formatBugDescriptionForJira sample_iso sample_bug =
     Inr (''*Bug Description:*\<newline>'' @
       ''Homepage takes more than 5 seconds to load\<newline>'' @
       ''\<newline>'' @
       ''*Steps to Reproduce:*\<newline>'' @
       ''1. Navigate to homepage\<newline>'' @
       ''2. Measure load time\<newline>'' @
       ''3. Compare with performance threshold\<newline>'' @
       ''\<newline>'' @
       ''*Expected Result:*\<newline>'' @
       ''Page should load within 3 seconds\<newline>'' @
       ''\<newline>'' @
       ''*Actual Result:*\<newline>'' @
       ''Page loads in 6.2 seconds\<newline>'' @
       ''\<newline>'' @
       ''*Additional Information:*\<newline>'' @
       ''- URL: https://example.com\<newline>'' @
       ''- Element: N/A\<newline>'' @
       ''- Category: performance\<newline>'' @
       ''- Test Case ID: N/A\<newline>'' @
       ''- Reporter: Performance Testing Tool\<newline>'' @
       ''- Created: 1970-01-01T00:00:00.000Z'')\<close>
  by (simp add: formatBugDescriptionForJira_def sample_iso_def sample_bug_def sample_env_def
      generateMockPerformanceBugs_def trim_def is_space_def or_else_def falsy_def
      enumerate_eq_zip show_nat.simps digit_char_def)

text \<open>
  As the claim states it, \<open>createJiraTicket\<close> rejected for an invalid configuration,
  it fails: for the configuration with empty base URL, email, API token and project
  key the validation reports four violations, and \<open>createJiraTicket\<close> resolves with
  a ticket.
\<close>

theorem C5_counterexample:
  \<open>validateJiraConfig (\<lambda>u. True) (as_partial sample_jira) =
     [''Base URL is required'', ''Email is required'', ''API Token is required'', ''Project Key is required'']
   \<and> fst (createJiraTicket sample_iso (sample_env 0) 0 sample_bug sample_jira) =
     Resolved \<lparr> ticket_id = ''0'', ticket_key = ''-0'', ticket_summary = ''Slow page load time'',
       ticket_description =
       ''*Bug Description:*\<newline>'' @
       ''Homepage takes more than 5 seconds to load\<newline>'' @
       ''\<newline>'' @
       ''*Steps to Reproduce:*\<newline>'' @
       ''1. Navigate to homepage\<newline>'' @
       ''2. Measure load time\<newline>'' @
       ''3. Compare with performance threshold\<newline>'' @
       ''\<newline>'' @
       ''*Expected Result:*\<newline>'' @
       ''Page should load within 3 seconds\<newline>'' @
       ''\<newline>'' @
       ''*Actual Result:*\<newline>'' @
       ''Page loads in 6.2 seconds\<newline>'' @
       ''\<newline>'' @
       ''*Additional Information:*\<newline>'' @
       ''- URL: https://example.com\<newline>'' @
       ''- Element: N/A\<newline>'' @
       ''- Category: performance\<newline>'' @
       ''- Test Case ID: N/A\<newline>'' @
       ''- Reporter: Performance Testing Tool\<newline>'' @
       ''- Created: 1970-01-01T00:00:00.000Z'',
       ticket_priority = ''High'', ticket_status = ''Open'', ticket_assignee = None,
       ticket_reporter = '''', ticket_created = 0, ticket_updated = 0,
       ticket_url = ''/browse/-0'' \<rparr>\<close>
proof -
  have "validateJiraConfig (\<lambda>u. True) (as_partial sample_jira) =
     [''Base URL is required'', ''Email is required'', ''API Token is required'', ''Project Key is required'']"
    by (simp add: validateJiraConfig_def check_baseUrl_def check_email_def as_partial_def
        sample_jira_def falsy_def)
  moreover have "bug_severity sample_bug = major" "bug_title sample_bug = ''Slow page load time''"
    by (simp_all add: sample_bug_def generateMockPerformanceBugs_def)
  ultimately show ?thesis
    by (simp add: createJiraTicket_def sample_description Let_def sample_jira_def sample_env_def
        show_nat.simps digit_char_def)
qed

section \<open>Reporting: the pass rate\<close>

text \<open>
  Rounding: \<open>fl64\<close> keeps the sign and moves a number by at most the \<open>2 ^ 53\<close>-th part
  of its magnitude.
\<close>

lemma round_half_even_near: "\<bar>of_int (round_half_even y) - y\<bar> \<le> 1 / 2"
proof -
  have "of_int \<lfloor>y\<rfloor> \<le> y" "y < of_int \<lfloor>y\<rfloor> + 1" by linarith+
  then show ?thesis
    by (auto simp: round_half_even_def Let_def)
qed

lemma round_half_even_nonneg: "0 \<le> y \<Longrightarrow> 0 \<le> round_half_even y"
  by (auto simp: round_half_even_def Let_def)

lemma binade_lower:
  assumes "0 < x"
  shows "2 powi binade x \<le> x"
proof -
  obtain p q where pq: "quotient_of x = (p, q)" by (cases "quotient_of x")
  then have q: "0 < q" by (rule quotient_of_denom_pos)
  from pq have x: "x = of_int p / of_int q" by (rule quotient_of_div)
  with assms q have p: "0 < p" by (simp add: zero_less_divide_iff)
  define d where "d = bitlen p - bitlen q"
  show ?thesis
  proof (cases "2 powi d \<le> x")
    case True
    then show ?thesis by (simp add: binade_def pq d_def)
  next
    case False
    then have b: "binade x = d - 1" by (simp add: binade_def pq d_def)
    from bitlen_bounds[OF p] have lp: "2 ^ nat (bitlen p - 1) \<le> p" by simp
    from bitlen_bounds[OF q] have uq: "q < 2 ^ nat (bitlen q)" by simp
    have bp: "1 \<le> bitlen p" using p by (smt (verit) bitlen_eq_zero_iff bitlen_nonneg)
    have bq: "0 \<le> bitlen q" by (rule bitlen_nonneg)
    have "d - 1 = (bitlen p - 1) - bitlen q" by (simp add: d_def)
    moreover have "(2::rat) powi ((bitlen p - 1) - bitlen q) = 2 powi (bitlen p - 1) / 2 powi (bitlen q)"
      by (rule power_int_diff) simp
    ultimately have "(2::rat) powi (d - 1) = 2 powi (bitlen p - 1) / 2 powi (bitlen q)"
      by (simp only:)
    also have "\<dots> = 2 ^ nat (bitlen p - 1) / 2 ^ nat (bitlen q)"
      using bp bq by (simp add: power_int_def)
    also have "\<dots> \<le> of_int p / of_int q"
    proof -
      have "(2::rat) ^ nat (bitlen p - 1) \<le> of_int p"
        using lp by (metis of_int_le_iff of_int_numeral of_int_power)
      moreover have "(of_int q :: rat) \<le> 2 ^ nat (bitlen q)"
        using uq by (metis less_imp_le of_int_le_iff of_int_numeral of_int_power)
      moreover have "(0::rat) < of_int q" using q by simp
      moreover have "(0::rat) \<le> of_int p" using p by simp
      ultimately show ?thesis
        by (intro frac_le)
    qed
    finally show ?thesis using b x by simp
  qed
qed

lemma fl64_error:
  "\<bar>fl64 x - x\<bar> \<le> \<bar>x\<bar> / 2 ^ 53"
proof (cases "x = 0")
  case True
  then show ?thesis by (simp add: fl64_def)
next
  case False
  define a where "a = \<bar>x\<bar>"
  define u :: rat where "u = 2 powi (binade a - 52)"
  define r where "r = round_half_even (a / u)"
  have a: "0 < a" using False by (simp add: a_def)
  have u: "0 < u" by (simp add: u_def)
  have f: "fl64 x = sgn x * of_int r * u"
    using False by (simp add: fl64_def Let_def a_def u_def r_def)
  have "fl64 x - x = sgn x * (of_int r * u - a)"
    unfolding f a_def by (simp add: algebra_simps sgn_mult_abs abs_mult_sgn)
  then have "\<bar>fl64 x - x\<bar> = \<bar>of_int r * u - a\<bar>"
    using False by (simp add: abs_mult abs_sgn_eq)
  also have "\<dots> = \<bar>of_int r - a / u\<bar> * u"
  proof -
    have "of_int r * u - a = (of_int r - a / u) * u" using u by (simp add: field_simps)
    then show ?thesis using u by (simp add: abs_mult)
  qed
  also have "\<dots> \<le> (1 / 2) * u"
    using round_half_even_near[of "a / u"] u unfolding r_def
    by (intro mult_right_mono) simp_all
  also have "\<dots> = 2 powi binade a / 2 ^ 53"
  proof -
    have "u = 2 powi binade a / 2 powi 52" unfolding u_def by (simp add: power_int_diff)
    then show ?thesis by simp
  qed
  also have "\<dots> \<le> a / 2 ^ 53"
    using binade_lower[OF a] by (simp add: divide_right_mono)
  finally show ?thesis by (simp add: a_def)
qed

lemma fl64_nonneg: "0 \<le> x \<Longrightarrow> 0 \<le> fl64 x"
  by (auto simp: fl64_def Let_def sgn_if intro!: mult_nonneg_nonneg round_half_even_nonneg divide_nonneg_nonneg)

lemma fl64_nonpos: "x \<le> 0 \<Longrightarrow> fl64 x \<le> 0"
proof (cases "x = 0")
  case True then show ?thesis by (simp add: fl64_def)
next
  case False
  assume "x \<le> 0"
  with False have x: "x < 0" by simp
  have "0 \<le> of_int (round_half_even (\<bar>x\<bar> / 2 powi (binade \<bar>x\<bar> - 52))) * (2::rat) powi (binade \<bar>x\<bar> - 52)"
    by (intro mult_nonneg_nonneg) (simp_all add: round_half_even_nonneg)
  then show ?thesis using x False by (simp add: fl64_def Let_def sgn_if mult.assoc)
qed

text \<open>
  The three roundings of the pass rate leave it within \<open>2 ^ -43\<close> of the exact value
  of the formula.
\<close>

lemma pass_rate_accuracy:
  fixes q :: rat
  assumes q: "0 \<le> q"
  shows "\<bar>max 0 (fl64 (100 - fl64 (fl64 q * 100))) - max 0 (100 - q * 100)\<bar> \<le> 1 / 2 ^ 43"
proof -
  define qh where "qh = fl64 q"
  define ph where "ph = fl64 (qh * 100)"
  define rh where "rh = fl64 (100 - ph)"
  have n: "(2::rat) ^ 53 = 9007199254740992" "(2::rat) ^ 43 = 8796093022208" by simp_all
  have qh0: "0 \<le> qh" unfolding qh_def using q by (rule fl64_nonneg)
  then have ph0: "0 \<le> ph" unfolding ph_def by (intro fl64_nonneg) simp
  have e1: "\<bar>qh - q\<bar> \<le> q / 9007199254740992"
    using fl64_error[of q] q unfolding qh_def n by simp
  have e2: "\<bar>ph - qh * 100\<bar> \<le> qh * 100 / 9007199254740992"
    using fl64_error[of "qh * 100"] qh0 unfolding ph_def n by simp
  have e3: "\<bar>rh - (100 - ph)\<bar> \<le> \<bar>100 - ph\<bar> / 9007199254740992"
    using fl64_error[of "100 - ph"] unfolding rh_def n by simp
  have "\<bar>max 0 rh - max 0 (100 - q * 100)\<bar> \<le> 1 / 8796093022208"
  proof (cases "q \<le> 2")
    case True
    from True e1 q have a1: "\<bar>qh - q\<bar> \<le> 2 / 9007199254740992" by linarith
    with True have a2: "qh \<le> 201 / 100" by linarith
    with e2 qh0 have a3: "\<bar>ph - qh * 100\<bar> \<le> 201 / 9007199254740992" by linarith
    from a1 a3 have a4: "\<bar>ph - q * 100\<bar> \<le> 401 / 9007199254740992" by linarith
    with True ph0 have "\<bar>100 - ph\<bar> \<le> 101" by linarith
    then have "\<bar>100 - ph\<bar> / 9007199254740992 \<le> 101 / 9007199254740992"
      by (rule divide_right_mono) simp
    with e3 have a5: "\<bar>rh - (100 - ph)\<bar> \<le> 101 / 9007199254740992" by (rule order_trans)
    from a4 a5 have "\<bar>rh - (100 - q * 100)\<bar> \<le> 502 / 9007199254740992" by linarith
    then show ?thesis by linarith
  next
    case False
    with e1 have "19 / 10 \<le> qh" by linarith
    with e2 have "100 \<le> ph" by linarith
    then have "rh \<le> 0" unfolding rh_def by (intro fl64_nonpos) simp
    moreover from False have "100 - q * 100 \<le> 0" by simp
    ultimately show ?thesis by simp
  qed
  then show ?thesis unfolding rh_def ph_def qh_def n .
qed

lemma scenario_70: "num_sub 100 (num_mul (num_div 3 10) 100) = 70"
  by code_simp

text \<open>
  Claim C8. With no test case the pass rate is 0; otherwise it is
  \<open>max(0, 100 - (totalBugs / totalTests) * 100)\<close>, each operation that of JavaScript
  numbers, which is within \<open>2 ^ -43\<close> of the exact value of the formula; with 10 test
  cases and 3 bugs it is exactly 70.
\<close>

theorem C8_passRate:
  "(length testCases = 0 \<longrightarrow> passRate bugs testCases = 0)
   \<and> (0 < length testCases \<longrightarrow>
        passRate bugs testCases =
          max 0 (num_sub 100 (num_mul (num_div (of_nat (length bugs)) (of_nat (length testCases))) 100))
        \<and> \<bar>passRate bugs testCases
             - max 0 (100 - of_nat (length bugs) / of_nat (length testCases) * 100)\<bar> \<le> 1 / 2 ^ 43)
   \<and> (length testCases = 10 \<and> length bugs = 3 \<longrightarrow> passRate bugs testCases = 70)"
proof -
  have "0 < length testCases \<longrightarrow>
      \<bar>passRate bugs testCases
         - max 0 (100 - of_nat (length bugs) / of_nat (length testCases) * 100)\<bar> \<le> 1 / 2 ^ 43"
    using pass_rate_accuracy[of "of_nat (length bugs) / of_nat (length testCases)"]
    by (simp add: passRate_def Let_def num_sub_def num_mul_def num_div_def)
  moreover have "length testCases = 10 \<and> length bugs = 3 \<longrightarrow> passRate bugs testCases = 70"
    using scenario_70 by (simp add: passRate_def Let_def)
  ultimately show ?thesis by (simp add: passRate_def Let_def)
qed

theorem C8_passRate_witness:
  "length (replicate 10 (sample_testCase high)) = 10 \<and> length (replicate 3 sample_bug) = 3
   \<and> passRate (replicate 3 sample_bug) (replicate 10 (sample_testCase high)) = 70
   \<and> passRate (replicate 3 sample_bug) [] = 0"
  using C8_passRate[of "replicate 10 (sample_testCase high)" "replicate 3 sample_bug"]
    C8_passRate[of "[]" "replicate 3 sample_bug"]
  by simp

end
